theory Spec2Isabelle
  imports Complex_Main "HOL-Library.Word" "HOL-Library.Monad_Syntax"
begin

unbundle bit_operations_syntax

section \<open>The combo sketch: numeric types and Arduino helpers\<close>

text \<open>
  The model follows \<^verbatim>\<open>combo/combo.ino\<close>. A C \<^verbatim>\<open>float\<close> is a \<^typ>\<open>real\<close>: arithmetic is
  exact, rounding is not represented. \<^verbatim>\<open>unsigned long\<close> and \<^verbatim>\<open>uint32_t\<close> are 32-bit words
  (subtraction of two clock readings wraps), \<^verbatim>\<open>uint8_t\<close> is an 8-bit word. Loop counters and
  LED indices are \<^typ>\<open>nat\<close> or \<^typ>\<open>int\<close>; they stay far below any machine bound.

  A floating-point division whose divisor is zero produces an infinity or a NaN that
  \<^verbatim>\<open>constrain\<close> does not repair, so every division by a value computed at run time is
  the checked \<open>fdiv\<close>, and a function that performs one returns an option: \<open>None\<close> means
  that a division by zero happened. Divisions by compile-time constants (31, the band
  widths) are written with the plain quotient.
\<close>

type_synonym millis = "32 word"
type_synonym color = "32 word"
type_synonym uint8 = "8 word"

definition fdiv :: "real \<Rightarrow> real \<Rightarrow> real option" where
  "fdiv x y = (if y = 0 then None else Some (x / y))"

text \<open>The Arduino macro \<^verbatim>\<open>constrain(amt, low, high)\<close>.\<close>

definition constrain :: "real \<Rightarrow> real \<Rightarrow> real \<Rightarrow> real" where
  "constrain amt low high = (if amt < low then low else if amt > high then high else amt)"

text \<open>The conversions \<^verbatim>\<open>(int) x\<close> (truncation towards zero) and float to \<^verbatim>\<open>uint8_t\<close>.\<close>

definition float_to_int :: "real \<Rightarrow> int" where
  "float_to_int x = (if 0 \<le> x then \<lfloor>x\<rfloor> else \<lceil>x\<rceil>)"

definition float_to_uint8 :: "real \<Rightarrow> uint8" where
  "float_to_uint8 x = word_of_int (float_to_int x)"

text \<open>
  \<^verbatim>\<open>random(howsmall, howbig)\<close> of the Arduino core, applied to the raw output \<open>r\<close> of the
  generator: \<^verbatim>\<open>howsmall\<close> when the range is empty, else \<^verbatim>\<open>r % (howbig - howsmall) + howsmall\<close>.
  The generator is not part of the sketch; its raw outputs are inputs of each cycle.
\<close>

definition random_range :: "int \<Rightarrow> int \<Rightarrow> nat \<Rightarrow> int" where
  "random_range howsmall howbig r =
     (if howsmall \<ge> howbig then howsmall else int r mod (howbig - howsmall) + howsmall)"

subsection \<open>Hardware and FFT configuration\<close>

abbreviation (input) NUM_LEDS :: nat where "NUM_LEDS \<equiv> 120"
abbreviation (input) SAMPLES :: nat where "SAMPLES \<equiv> 64"
abbreviation (input) NUM_BINS :: nat where "NUM_BINS \<equiv> 32"

subsection \<open>The LED strip\<close>

text \<open>
  Modelled from the spec: the LED output capability (\<^verbatim>\<open>Adafruit_NeoPixel\<close> is outside the
  repository). Section 6 of the specification gives \<^verbatim>\<open>setPixel(index, colorRGB)\<close>,
  \<^verbatim>\<open>getPixel(index) -> colorRGB\<close> as a read-back of the stored colour and \<^verbatim>\<open>clearAll()\<close>.
  The frame buffer is the list of the 120 stored colours; an RGB strip stores three bytes
  per pixel, so a colour is stored as its low 24 bits; an index outside the strip is
  ignored on write and reads as 0. \<^verbatim>\<open>strip.Color(r, g, b)\<close> packs three bytes.
  The scaling by \<^verbatim>\<open>setBrightness\<close> that the library applies to what it sends to the
  LEDs is not represented: a colour reads back as it was written.
\<close>

definition Color :: "uint8 \<Rightarrow> uint8 \<Rightarrow> uint8 \<Rightarrow> color" where
  "Color r g b = push_bit 16 (ucast r) OR push_bit 8 (ucast g) OR ucast b"

definition strip_clear :: "color list" where
  "strip_clear = replicate NUM_LEDS 0"

definition setPixelColor :: "int \<Rightarrow> color \<Rightarrow> color list \<Rightarrow> color list" where
  "setPixelColor n c fb =
     (if 0 \<le> n \<and> n < int NUM_LEDS then fb[nat n := c AND 0xFFFFFF] else fb)"

definition getPixelColor :: "int \<Rightarrow> color list \<Rightarrow> color" where
  "getPixelColor n fb = (if 0 \<le> n \<and> n < int NUM_LEDS then fb ! nat n else 0)"

text \<open>The channel extractions \<^verbatim>\<open>(color >> 16) & 0xFF\<close>, \<^verbatim>\<open>(color >> 8) & 0xFF\<close>, \<^verbatim>\<open>color & 0xFF\<close>.\<close>

definition chanR :: "color \<Rightarrow> color" where "chanR c = drop_bit 16 c AND 0xFF"
definition chanG :: "color \<Rightarrow> color" where "chanG c = drop_bit 8 c AND 0xFF"
definition chanB :: "color \<Rightarrow> color" where "chanB c = c AND 0xFF"

subsection \<open>Mode switching configuration and state\<close>

abbreviation (input) SWITCH_PERIODIC :: bool where "SWITCH_PERIODIC \<equiv> True"
abbreviation (input) SWITCH_ON_SPIKE :: bool where "SWITCH_ON_SPIKE \<equiv> True"
abbreviation (input) SWITCH_INTERVAL_MS :: millis where "SWITCH_INTERVAL_MS \<equiv> 90000"
abbreviation (input) MIN_MODE_TIME_MS :: millis where "MIN_MODE_TIME_MS \<equiv> 30000"
abbreviation (input) SPIKE_THRESHOLD :: real where "SPIKE_THRESHOLD \<equiv> 0.5"

datatype Mode = MODE_TRAIL | MODE_LAVA | MODE_SPECTRUM

abbreviation (input) NUM_MODES :: nat where "NUM_MODES \<equiv> 3"

fun mode_index :: "Mode \<Rightarrow> nat" where
  "mode_index MODE_TRAIL = 0"
| "mode_index MODE_LAVA = 1"
| "mode_index MODE_SPECTRUM = 2"

definition mode_of_index :: "nat \<Rightarrow> Mode" where
  "mode_of_index n = (if n = 0 then MODE_TRAIL else if n = 1 then MODE_LAVA else MODE_SPECTRUM)"

subsection \<open>Trail configuration and state\<close>

abbreviation (input) TRAIL_REVERSE :: bool where "TRAIL_REVERSE \<equiv> True"
abbreviation (input) TRAIL_THRESHOLD :: real where "TRAIL_THRESHOLD \<equiv> 0.70"
abbreviation (input) TRAIL_USE_INTENSITY :: bool where "TRAIL_USE_INTENSITY \<equiv> True"
abbreviation (input) TRAIL_SCROLL_MS :: millis where "TRAIL_SCROLL_MS \<equiv> 50"
abbreviation (input) TRAIL_FADE :: real where "TRAIL_FADE \<equiv> 0.92"
abbreviation (input) TRAIL_REALTIME_LEDS :: nat where "TRAIL_REALTIME_LEDS \<equiv> 8"
abbreviation (input) TRAIL_NUM_BANDS :: nat where "TRAIL_NUM_BANDS \<equiv> 8"
abbreviation (input) TRAIL_BAND_END :: nat where "TRAIL_BAND_END \<equiv> 32"

definition TRAIL_BAND_START :: "nat list" where
  "TRAIL_BAND_START = [1, 2, 3, 4, 6, 9, 12, 16]"

definition TRAIL_BAND_NOISE :: "real list" where
  "TRAIL_BAND_NOISE = [200, 80, 80, 80, 80, 80, 80, 80]"

definition TRAIL_COLORS :: "color list" where
  "TRAIL_COLORS = [0x0044FF, 0x2200FF, 0x6600FF, 0x9900FF,
                   0xCC00FF, 0xFF00CC, 0xFF0088, 0xFF0044]"

record trail_state =
  trailBands :: "real list"
  trailBandPeaks :: "real list"
  trailLastScroll :: millis

subsection \<open>Lava configuration and state\<close>

abbreviation (input) LAVA_MAX_BLOBS :: nat where "LAVA_MAX_BLOBS \<equiv> 8"
abbreviation (input) LAVA_FADE_RATE :: real where "LAVA_FADE_RATE \<equiv> 0.92"
abbreviation (input) LAVA_DRIFT_SPEED :: real where "LAVA_DRIFT_SPEED \<equiv> 0.3"
abbreviation (input) LAVA_SPAWN_SIZE :: real where "LAVA_SPAWN_SIZE \<equiv> 10.0"
abbreviation (input) LAVA_SHRINK_RATE :: real where "LAVA_SHRINK_RATE \<equiv> 0.97"
abbreviation (input) LAVA_TRIGGER_THRESHOLD :: real where "LAVA_TRIGGER_THRESHOLD \<equiv> 0.3"
abbreviation (input) LAVA_COLOR_MODE :: int where "LAVA_COLOR_MODE \<equiv> 1"
abbreviation (input) LAVA_NUM_BANDS :: nat where "LAVA_NUM_BANDS \<equiv> 6"

definition LAVA_COLORS :: "color list" where
  "LAVA_COLORS = [0xFF0000, 0xFF4400, 0xFFAA00, 0x44FF00, 0x0088FF, 0x8800FF]"

record LavaBlob =
  active :: bool
  position :: real
  size_blob :: real
  brightness :: real
  drift :: real
  colorIndex :: nat

record lava_state =
  lavaBlobs :: "LavaBlob list"
  lavaBandLevels :: "real list"
  lavaBandPeaks :: "real list"
  lavaDominantBand :: nat
  lavaAudioLevel :: real
  lavaAudioPeak :: real
  lavaLastAudioLevel :: real

subsection \<open>Spectrum configuration\<close>

abbreviation (input) SPECTRUM_SENSITIVITY :: real where "SPECTRUM_SENSITIVITY \<equiv> 1.5"
abbreviation (input) SPECTRUM_REVERSE :: bool where "SPECTRUM_REVERSE \<equiv> False"
abbreviation (input) SPECTRUM_RESOLUTION :: nat where "SPECTRUM_RESOLUTION \<equiv> 4"
abbreviation (input) SPECTRUM_NOISE_LOW :: real where "SPECTRUM_NOISE_LOW \<equiv> 50.0"
abbreviation (input) SPECTRUM_NOISE_MID :: real where "SPECTRUM_NOISE_MID \<equiv> 60.0"
abbreviation (input) SPECTRUM_NOISE_HIGH :: real where "SPECTRUM_NOISE_HIGH \<equiv> 80.0"
abbreviation (input) SPECTRUM_R :: uint8 where "SPECTRUM_R \<equiv> 0"
abbreviation (input) SPECTRUM_G :: uint8 where "SPECTRUM_G \<equiv> 255"
abbreviation (input) SPECTRUM_B :: uint8 where "SPECTRUM_B \<equiv> 0"
abbreviation (input) SPECTRUM_ACTIVE_LEDS :: nat where "SPECTRUM_ACTIVE_LEDS \<equiv> 30"

subsection \<open>The globals of the sketch and the inputs of one cycle\<close>

record combo =
  currentMode :: Mode
  lastSwitch :: millis
  lastSpikeSwitch :: millis
  globalAudioLevel :: real
  globalAudioPeak :: real
  globalLastAudioLevel :: real
  trail :: trail_state
  lava :: lava_state
  spectrumBinPeaks :: "real list"
  strip :: "color list"

text \<open>
  What one pass of \<^verbatim>\<open>loop()\<close> reads from outside: the magnitude spectrum left in
  \<^verbatim>\<open>vReal\<close> by \<^verbatim>\<open>sampleAudio\<close> and \<^verbatim>\<open>computeFFT\<close>, the three readings of \<^verbatim>\<open>millis()\<close>
  (in \<^verbatim>\<open>checkModeSwitch\<close>, in \<^verbatim>\<open>nextMode\<close> and in \<^verbatim>\<open>trailUpdate\<close>) and the raw outputs
  of the random generator that \<^verbatim>\<open>lavaSpawnBlob\<close> consumes.
\<close>

record cycle =
  vReal :: "real list"
  millisCheck :: millis
  millisNext :: millis
  millisTrail :: millis
  randPosition :: nat
  randDirection :: nat
  randSpeed :: nat
  randColor :: nat

section \<open>Shared functions\<close>

text \<open>The mean of the bins above DC: \<^verbatim>\<open>for i in 1 .. NUM_BINS-1: audio += vReal[i]; audio /= NUM_BINS - 1\<close>.\<close>

definition audioMean :: "real list \<Rightarrow> real" where
  "audioMean v = sum_list (map (\<lambda>i. v ! i) [1..<NUM_BINS]) / real (NUM_BINS - 1)"

definition updateGlobalAudioLevel :: "real list \<Rightarrow> combo \<Rightarrow> combo" where
  "updateGlobalAudioLevel v s =
     (let audio = audioMean v;
          s1 = s\<lparr>globalLastAudioLevel := globalAudioLevel s\<rparr>;
          s2 = (if audio > globalAudioLevel s1
                then s1\<lparr>globalAudioLevel := audio\<rparr>
                else s1\<lparr>globalAudioLevel := globalAudioLevel s1 * 0.7 + audio * 0.3\<rparr>)
      in (if globalAudioLevel s2 > globalAudioPeak s2
          then s2\<lparr>globalAudioPeak := globalAudioLevel s2\<rparr>
          else s2\<lparr>globalAudioPeak := globalAudioPeak s2 * 0.99 + 50 * 0.01\<rparr>))"

definition detectAudioSpike :: "combo \<Rightarrow> bool option" where
  "detectAudioSpike s =
     (if globalAudioPeak s \<le> 50 then Some False
      else do {
        q1 \<leftarrow> fdiv (globalAudioLevel s - 50) (globalAudioPeak s - 50);
        q2 \<leftarrow> fdiv (globalLastAudioLevel s - 50) (globalAudioPeak s - 50);
        let cur = constrain q1 0 1;
        let last = constrain q2 0 1;
        Some (cur > SPIKE_THRESHOLD \<and> cur > last + 0.25)
      })"

section \<open>Trail\<close>

text \<open>A loop whose body may divide: it stops with \<open>None\<close> at the first failing iteration.\<close>

primrec for_each :: "('a \<Rightarrow> 's \<Rightarrow> 's option) \<Rightarrow> 'a list \<Rightarrow> 's \<Rightarrow> 's option" where
  "for_each body [] s = Some s"
| "for_each body (x # xs) s = (case body x s of None \<Rightarrow> None | Some s' \<Rightarrow> for_each body xs s')"

definition trailLed :: "int \<Rightarrow> int" where
  "trailLed i = (if TRAIL_REVERSE then int NUM_LEDS - 1 - i else i)"

definition trailDimColor :: "color \<Rightarrow> real \<Rightarrow> color" where
  "trailDimColor c intensity =
     Color (float_to_uint8 (real (unat (chanR c)) * intensity))
           (float_to_uint8 (real (unat (chanG c)) * intensity))
           (float_to_uint8 (real (unat (chanB c)) * intensity))"

definition trailFadeColor :: "color \<Rightarrow> real \<Rightarrow> color" where
  "trailFadeColor c factor =
     Color (float_to_uint8 (real (unat (chanR c)) * factor))
           (float_to_uint8 (real (unat (chanG c)) * factor))
           (float_to_uint8 (real (unat (chanB c)) * factor))"

definition trailSetupPeaks :: "real list" where
  "trailSetupPeaks = map (\<lambda>i. TRAIL_BAND_NOISE ! i) [0..<TRAIL_NUM_BANDS]"

text \<open>\<^verbatim>\<open>trailSetup\<close>: the band peaks are set to the noise table and the strip is cleared.\<close>

definition trailSetup :: "combo \<Rightarrow> combo" where
  "trailSetup s = s\<lparr>trail := (trail s)\<lparr>trailBandPeaks := trailSetupPeaks\<rparr>, strip := strip_clear\<rparr>"

text \<open>The band analysis of \<^verbatim>\<open>trailUpdate\<close>: the mean of the bins of band \<open>b\<close>.\<close>

definition trailBand :: "real list \<Rightarrow> nat \<Rightarrow> real" where
  "trailBand v b =
     (let endBin = (if b < TRAIL_NUM_BANDS - 1 then TRAIL_BAND_START ! (b + 1) else TRAIL_BAND_END);
          bins = [TRAIL_BAND_START ! b ..< endBin];
          total = sum_list (map (\<lambda>i. v ! i) bins);
          count = length bins
      in if count > 0 then total / real count else total)"

text \<open>The intensity of an active real-time pixel, with the divisor \<^verbatim>\<open>peak - noise + 1\<close>.\<close>

definition trailIntensity :: "real \<Rightarrow> real \<Rightarrow> real \<Rightarrow> real option" where
  "trailIntensity band noise peak = do {
     q \<leftarrow> fdiv (band - noise) (peak - noise + 1);
     Some (constrain q 0.2 1.0)
   }"

definition trailRealtimeLed :: "real list \<Rightarrow> real list \<Rightarrow> nat \<Rightarrow> color list \<Rightarrow> color list option" where
  "trailRealtimeLed bands peaks b fb =
     (let isActive = (bands ! b > TRAIL_BAND_NOISE ! b) \<and> (bands ! b > peaks ! b * TRAIL_THRESHOLD)
      in if isActive then
           (if TRAIL_USE_INTENSITY then do {
              intensity \<leftarrow> trailIntensity (bands ! b) (TRAIL_BAND_NOISE ! b) (peaks ! b);
              Some (setPixelColor (trailLed (int b)) (trailDimColor (TRAIL_COLORS ! b) intensity) fb)
            }
            else Some (setPixelColor (trailLed (int b)) (TRAIL_COLORS ! b) fb))
         else Some (setPixelColor (trailLed (int b)) 0 fb))"

text \<open>
  One iteration of the scroll loop, for the logical index \<open>i\<close>, and the loop itself, which
  runs from \<^verbatim>\<open>NUM_LEDS - 1\<close> down to \<^verbatim>\<open>TRAIL_REALTIME_LEDS\<close> on the buffer it is changing.
  The fade factor is the argument the sketch passes to \<^verbatim>\<open>trailFadeColor\<close>
  (its constant \<^verbatim>\<open>TRAIL_FADE\<close>).
\<close>

definition trailScrollLed :: "real \<Rightarrow> nat \<Rightarrow> color list \<Rightarrow> color list" where
  "trailScrollLed fade i fb =
     (if i \<ge> TRAIL_REALTIME_LEDS + TRAIL_REALTIME_LEDS
      then setPixelColor (trailLed (int i))
             (trailFadeColor (getPixelColor (trailLed (int i - int TRAIL_REALTIME_LEDS)) fb) fade) fb
      else setPixelColor (trailLed (int i))
             (getPixelColor (trailLed (int i - int TRAIL_REALTIME_LEDS)) fb) fb)"

definition trailScroll :: "real \<Rightarrow> color list \<Rightarrow> color list" where
  "trailScroll fade fb = fold (trailScrollLed fade) (rev [TRAIL_REALTIME_LEDS..<NUM_LEDS]) fb"

definition trailPeak :: "real \<Rightarrow> real \<Rightarrow> real \<Rightarrow> real" where
  "trailPeak band peak noise =
     (if band > peak then band else peak * 0.993 + noise * 0.007)"

definition trailUpdate ::
  "real list \<Rightarrow> millis \<Rightarrow> trail_state \<Rightarrow> color list \<Rightarrow> (trail_state \<times> color list) option" where
  "trailUpdate v now ts fb = do {
     let bands = map (trailBand v) [0..<TRAIL_NUM_BANDS];
     fb1 \<leftarrow> for_each (trailRealtimeLed bands (trailBandPeaks ts))
              [0..<min TRAIL_REALTIME_LEDS TRAIL_NUM_BANDS] fb;
     let scrolls = (now - trailLastScroll ts \<ge> TRAIL_SCROLL_MS);
     let fb2 = (if scrolls then trailScroll TRAIL_FADE fb1 else fb1);
     let peaks = map (\<lambda>b. trailPeak (bands ! b) (trailBandPeaks ts ! b) (TRAIL_BAND_NOISE ! b))
                   [0..<TRAIL_NUM_BANDS];
     Some (\<lparr>trailBands = bands, trailBandPeaks = peaks,
            trailLastScroll = (if scrolls then now else trailLastScroll ts)\<rparr>, fb2)
   }"

section \<open>Lava\<close>

text \<open>
  \<^verbatim>\<open>lavaSetup\<close> deactivates the blobs, sets the band peaks and the loudness peak to 100
  and the loudness level to 0; it changes nothing else.
\<close>

definition lavaSetup :: "lava_state \<Rightarrow> lava_state" where
  "lavaSetup ls =
     ls\<lparr>lavaBlobs := map (\<lambda>i. (lavaBlobs ls ! i)\<lparr>active := False\<rparr>) [0..<LAVA_MAX_BLOBS],
        lavaBandPeaks := map (\<lambda>i. 100) [0..<LAVA_NUM_BANDS],
        lavaAudioLevel := 0,
        lavaAudioPeak := 100\<rparr>"

definition bandBins :: "nat list" where
  "bandBins = [1, 3, 5, 8, 12, 19, 32]"

text \<open>The normalisation \<^verbatim>\<open>constrain((x - 50) / (peak - 50), 0, 1)\<close> behind its guard \<^verbatim>\<open>peak > 50\<close>.\<close>

definition lavaNormalize :: "real \<Rightarrow> real \<Rightarrow> real option" where
  "lavaNormalize x peak =
     (if peak > 50 then do { q \<leftarrow> fdiv (x - 50) (peak - 50); Some (constrain q 0 1) }
      else Some 0)"

text \<open>
  One iteration of the band loop of \<^verbatim>\<open>lavaAnalyzeAudio\<close>; the local \<^verbatim>\<open>maxBandLevel\<close> is
  carried beside the state.
\<close>

definition lavaAnalyzeBand :: "real list \<Rightarrow> nat \<Rightarrow> lava_state \<times> real \<Rightarrow> (lava_state \<times> real) option" where
  "lavaAnalyzeBand v b = (\<lambda>(ls, maxBandLevel).
     let level = sum_list (map (\<lambda>i. v ! i) [bandBins ! b ..< bandBins ! (b + 1)])
                   / real (bandBins ! (b + 1) - bandBins ! b);
         peak = (if level > lavaBandPeaks ls ! b then level
                 else lavaBandPeaks ls ! b * 0.995 + 50 * 0.005);
         ls1 = ls\<lparr>lavaBandLevels := (lavaBandLevels ls)[b := level],
                  lavaBandPeaks := (lavaBandPeaks ls)[b := peak]\<rparr>
     in do {
       normalizedLevel \<leftarrow> lavaNormalize level peak;
       Some (if normalizedLevel > maxBandLevel
             then (ls1\<lparr>lavaDominantBand := b\<rparr>, normalizedLevel)
             else (ls1, maxBandLevel))
     })"

definition lavaAnalyzeAudio :: "real list \<Rightarrow> lava_state \<Rightarrow> lava_state option" where
  "lavaAnalyzeAudio v ls = do {
     (ls1, maxBandLevel) \<leftarrow> for_each (lavaAnalyzeBand v) [0..<LAVA_NUM_BANDS]
                              (ls\<lparr>lavaDominantBand := 0\<rparr>, 0);
     let audio = audioMean v;
     let ls2 = ls1\<lparr>lavaLastAudioLevel := lavaAudioLevel ls1\<rparr>;
     let ls3 = (if audio > lavaAudioLevel ls2
                then ls2\<lparr>lavaAudioLevel := audio\<rparr>
                else ls2\<lparr>lavaAudioLevel := lavaAudioLevel ls2 * 0.7 + audio * 0.3\<rparr>);
     Some (if lavaAudioLevel ls3 > lavaAudioPeak ls3
           then ls3\<lparr>lavaAudioPeak := lavaAudioLevel ls3\<rparr>
           else ls3\<lparr>lavaAudioPeak := lavaAudioPeak ls3 * 0.99 + 50 * 0.01\<rparr>)
   }"

text \<open>
  The slot search of \<^verbatim>\<open>lavaSpawnBlob\<close>. \<open>None\<close> is the source's \<^verbatim>\<open>slot == -1\<close>. The first
  loop stops at the first inactive blob; the second, run only when the first found
  nothing, starts from \<^verbatim>\<open>minBrightness = 1.0\<close> and takes a slot on a strictly smaller
  brightness.
\<close>

definition firstInactive :: "LavaBlob list \<Rightarrow> nat option" where
  "firstInactive blobs = List.find (\<lambda>i. \<not> active (blobs ! i)) [0..<LAVA_MAX_BLOBS]"

definition dimmest :: "LavaBlob list \<Rightarrow> real \<times> nat option" where
  "dimmest blobs =
     fold (\<lambda>i (minBrightness, slot).
             if brightness (blobs ! i) < minBrightness then (brightness (blobs ! i), Some i)
             else (minBrightness, slot))
          [0..<LAVA_MAX_BLOBS] (1.0, None)"

definition spawnSlot :: "LavaBlob list \<Rightarrow> nat option" where
  "spawnSlot blobs =
     (case firstInactive blobs of Some i \<Rightarrow> Some i | None \<Rightarrow> snd (dimmest blobs))"

definition spawnedBlob :: "real \<Rightarrow> cycle \<Rightarrow> nat \<Rightarrow> LavaBlob" where
  "spawnedBlob intensity inp dominant =
     \<lparr>active = True,
      position = real_of_int (random_range 10 (int NUM_LEDS - 10) (randPosition inp)),
      size_blob = LAVA_SPAWN_SIZE * (0.7 + intensity * 0.5),
      brightness = 0.5 + intensity * 0.5,
      drift = (if random_range 0 2 (randDirection inp) = 0 then - 1 else 1) * LAVA_DRIFT_SPEED
                * (0.5 + real_of_int (random_range 0 100 (randSpeed inp)) / 100.0),
      colorIndex = (if LAVA_COLOR_MODE = 0
                    then nat (random_range 0 (int LAVA_NUM_BANDS) (randColor inp))
                    else dominant)\<rparr>"

definition lavaSpawnBlob :: "real \<Rightarrow> cycle \<Rightarrow> lava_state \<Rightarrow> lava_state" where
  "lavaSpawnBlob intensity inp ls =
     (case spawnSlot (lavaBlobs ls) of
        None \<Rightarrow> ls
      | Some slot \<Rightarrow>
          ls\<lparr>lavaBlobs := (lavaBlobs ls)[slot := spawnedBlob intensity inp (lavaDominantBand ls)]\<rparr>)"

definition lavaCheckTrigger :: "cycle \<Rightarrow> lava_state \<Rightarrow> lava_state option" where
  "lavaCheckTrigger inp ls = do {
     normalizedAudio \<leftarrow> lavaNormalize (lavaAudioLevel ls) (lavaAudioPeak ls);
     normalizedLast \<leftarrow> lavaNormalize (lavaLastAudioLevel ls) (lavaAudioPeak ls);
     Some (if normalizedAudio > LAVA_TRIGGER_THRESHOLD \<and> normalizedAudio > normalizedLast + 0.1
           then lavaSpawnBlob normalizedAudio inp ls else ls)
   }"

definition lavaUpdateBlob :: "LavaBlob \<Rightarrow> LavaBlob" where
  "lavaUpdateBlob b =
     (if \<not> active b then b
      else let b1 = b\<lparr>brightness := brightness b * LAVA_FADE_RATE,
                       size_blob := size_blob b * LAVA_SHRINK_RATE,
                       position := position b + drift b\<rparr>;
               b2 = (if brightness b1 < 0.02 \<or> size_blob b1 < 1 then b1\<lparr>active := False\<rparr> else b1)
           in if position b2 < 0 \<or> position b2 \<ge> real NUM_LEDS
              then b2\<lparr>drift := drift b2 * (- 1),
                      position := constrain (position b2) 0 (real NUM_LEDS - 1)\<rparr>
              else b2)"

definition lavaUpdateBlobs :: "lava_state \<Rightarrow> lava_state" where
  "lavaUpdateBlobs ls =
     ls\<lparr>lavaBlobs := map (\<lambda>i. lavaUpdateBlob (lavaBlobs ls ! i)) [0..<LAVA_MAX_BLOBS]\<rparr>"

text \<open>\<^verbatim>\<open>min(255, old + new)\<close> on two bytes: the sum is an \<^verbatim>\<open>int\<close> and does not wrap.\<close>

definition addChannel :: "color \<Rightarrow> uint8 \<Rightarrow> uint8" where
  "addChannel old new = word_of_int (min 255 (uint (ucast old :: uint8) + uint new))"

definition lavaAddColorToPixel :: "int \<Rightarrow> color \<Rightarrow> real \<Rightarrow> color list \<Rightarrow> color list" where
  "lavaAddColorToPixel pixel c bright fb =
     (let newR = float_to_uint8 (real (unat (chanR c)) * bright);
          newG = float_to_uint8 (real (unat (chanG c)) * bright);
          newB = float_to_uint8 (real (unat (chanB c)) * bright);
          existing = getPixelColor pixel fb
      in setPixelColor pixel
           (Color (addChannel (chanR existing) newR)
                  (addChannel (chanG existing) newG)
                  (addChannel (chanB existing) newB)) fb)"

text \<open>The falloff of a blob at LED \<open>i\<close>, with the divisor \<^verbatim>\<open>size\<close>.\<close>

definition lavaFalloff :: "LavaBlob \<Rightarrow> int \<Rightarrow> real option" where
  "lavaFalloff blob i = do {
     q \<leftarrow> fdiv \<bar>real_of_int i - position blob\<bar> (size_blob blob);
     let falloff = 1.0 - q;
     let falloff = falloff * falloff * brightness blob;
     Some (constrain falloff 0 1)
   }"

definition lavaRenderPixel :: "LavaBlob \<Rightarrow> int \<Rightarrow> color list \<Rightarrow> color list option" where
  "lavaRenderPixel blob i fb = do {
     falloff \<leftarrow> lavaFalloff blob i;
     Some (lavaAddColorToPixel i (LAVA_COLORS ! colorIndex blob) falloff fb)
   }"

definition lavaRenderBlob :: "LavaBlob \<Rightarrow> color list \<Rightarrow> color list option" where
  "lavaRenderBlob blob fb =
     (if \<not> active blob then Some fb
      else let startLed = max 0 (float_to_int (position blob - size_blob blob));
               endLed = min (int NUM_LEDS - 1) (float_to_int (position blob + size_blob blob))
           in for_each (lavaRenderPixel blob) [startLed..endLed] fb)"

definition lavaRender :: "lava_state \<Rightarrow> color list option" where
  "lavaRender ls =
     for_each (\<lambda>b. lavaRenderBlob (lavaBlobs ls ! b)) [0..<LAVA_MAX_BLOBS] strip_clear"

definition lavaUpdate :: "cycle \<Rightarrow> lava_state \<Rightarrow> (lava_state \<times> color list) option" where
  "lavaUpdate inp ls = do {
     ls1 \<leftarrow> lavaAnalyzeAudio (vReal inp) ls;
     ls2 \<leftarrow> lavaCheckTrigger inp ls1;
     let ls3 = lavaUpdateBlobs ls2;
     fb \<leftarrow> lavaRender ls3;
     Some (ls3, fb)
   }"

section \<open>Spectrum\<close>

definition spectrumGetNoiseFloor :: "real \<Rightarrow> real" where
  "spectrumGetNoiseFloor freqRatio =
     (if freqRatio < 0.33 then SPECTRUM_NOISE_LOW
      else if freqRatio < 0.66 then SPECTRUM_NOISE_MID
      else SPECTRUM_NOISE_HIGH)"

definition spectrumIntensityToColor :: "real \<Rightarrow> color" where
  "spectrumIntensityToColor intensity =
     (let intensity = constrain intensity 0.0 1.0
      in Color (float_to_uint8 (real (unat SPECTRUM_R) * intensity))
               (float_to_uint8 (real (unat SPECTRUM_G) * intensity))
               (float_to_uint8 (real (unat SPECTRUM_B) * intensity)))"

definition spectrumSetup :: "real list" where
  "spectrumSetup =
     map (\<lambda>i. spectrumGetNoiseFloor (real i / real (NUM_BINS - 1)) * 2) [0..<NUM_BINS]"

text \<open>The peak loop of \<^verbatim>\<open>spectrumUpdate\<close>: bins 1 to 31, bin 0 is left as it is.\<close>

definition spectrumPeak :: "real list \<Rightarrow> nat \<Rightarrow> real list \<Rightarrow> real list" where
  "spectrumPeak v b peaks =
     (let freqRatio = real b / real (NUM_BINS - 1);
          noiseFloor = spectrumGetNoiseFloor freqRatio
      in if v ! b > peaks ! b then peaks[b := v ! b]
         else peaks[b := peaks ! b * 0.995 + noiseFloor * 0.005])"

definition spectrumPeaks :: "real list \<Rightarrow> real list \<Rightarrow> real list" where
  "spectrumPeaks v peaks = fold (spectrumPeak v) [1..<NUM_BINS] peaks"

text \<open>The intensity of one LED: the quotient is taken only behind the guard.\<close>

definition spectrumIntensity :: "real \<Rightarrow> real \<Rightarrow> real \<Rightarrow> real option" where
  "spectrumIntensity val peak noiseFloor =
     (if val > noiseFloor \<and> peak > noiseFloor then do {
        q \<leftarrow> fdiv (val - noiseFloor) (peak - noiseFloor);
        Some (constrain (q * SPECTRUM_SENSITIVITY) 0.0 1.0)
      }
      else Some 0)"

definition spectrumRenderLed :: "real list \<Rightarrow> real list \<Rightarrow> nat \<Rightarrow> color list \<Rightarrow> color list option" where
  "spectrumRenderLed v peaks i fb =
     (let ledPos = i * SPECTRUM_RESOLUTION;
          ledIndex = (if SPECTRUM_REVERSE then int NUM_LEDS - 1 - int ledPos else int ledPos);
          ledRatio = real i / real (SPECTRUM_ACTIVE_LEDS - 1);
          binFloat = 1.0 + real (NUM_BINS - 2) * ledRatio;
          binLow = nat (float_to_int binFloat);
          binHigh = min (binLow + 1) (NUM_BINS - 1);
          frac = binFloat - real binLow;
          val = v ! binLow * (1.0 - frac) + v ! binHigh * frac;
          peak = peaks ! binLow * (1.0 - frac) + peaks ! binHigh * frac;
          noiseFloor = spectrumGetNoiseFloor ledRatio
      in do {
        intensity \<leftarrow> spectrumIntensity val peak noiseFloor;
        Some (if intensity \<ge> 0.08
              then setPixelColor ledIndex (spectrumIntensityToColor intensity) fb
              else fb)
      })"

definition spectrumUpdate :: "real list \<Rightarrow> real list \<Rightarrow> (real list \<times> color list) option" where
  "spectrumUpdate v peaks = do {
     let peaks1 = spectrumPeaks v peaks;
     fb \<leftarrow> for_each (spectrumRenderLed v peaks1) [0..<SPECTRUM_ACTIVE_LEDS] strip_clear;
     Some (peaks1, fb)
   }"

section \<open>Mode switching, setup and loop\<close>

text \<open>\<^verbatim>\<open>nextMode\<close>; \<open>now\<close> is its own reading of \<^verbatim>\<open>millis()\<close>.\<close>

definition nextMode :: "millis \<Rightarrow> combo \<Rightarrow> combo" where
  "nextMode now s =
     (let s1 = s\<lparr>strip := strip_clear\<rparr>;
          s2 = s1\<lparr>currentMode := mode_of_index ((mode_index (currentMode s1) + 1) mod NUM_MODES)\<rparr>;
          s3 = s2\<lparr>lastSwitch := now\<rparr>
      in case currentMode s3 of
           MODE_TRAIL \<Rightarrow> trailSetup s3
         | MODE_LAVA \<Rightarrow> s3\<lparr>lava := lavaSetup (lava s3)\<rparr>
         | MODE_SPECTRUM \<Rightarrow> s3\<lparr>spectrumBinPeaks := spectrumSetup\<rparr>)"

text \<open>
  \<^verbatim>\<open>checkModeSwitch\<close>; \<open>now\<close> is its reading of the clock and \<open>later\<close> the one
  \<^verbatim>\<open>nextMode\<close> takes when it runs.
\<close>

definition checkModeSwitch :: "millis \<Rightarrow> millis \<Rightarrow> combo \<Rightarrow> combo option" where
  "checkModeSwitch now later s =
     (if SWITCH_PERIODIC \<and> now - lastSwitch s \<ge> SWITCH_INTERVAL_MS then Some (nextMode later s)
      else if SWITCH_ON_SPIKE \<and> now - lastSpikeSwitch s \<ge> MIN_MODE_TIME_MS then do {
        spike \<leftarrow> detectAudioSpike s;
        Some (if spike then nextMode later (s\<lparr>lastSpikeSwitch := now\<rparr>) else s)
      }
      else Some s)"

text \<open>
  The globals as C++ initialises them (zero, except the mode and the two loudness
  peaks) and \<^verbatim>\<open>setup()\<close>, whose two readings of \<^verbatim>\<open>millis()\<close> are \<open>t1\<close> and \<open>t2\<close>.
\<close>

definition zeroBlob :: LavaBlob where
  "zeroBlob = \<lparr>active = False, position = 0, size_blob = 0, brightness = 0, drift = 0,
               colorIndex = 0\<rparr>"

definition initial :: combo where
  "initial =
     \<lparr>currentMode = MODE_TRAIL, lastSwitch = 0, lastSpikeSwitch = 0,
      globalAudioLevel = 0, globalAudioPeak = 100, globalLastAudioLevel = 0,
      trail = \<lparr>trailBands = replicate TRAIL_NUM_BANDS 0,
                trailBandPeaks = replicate TRAIL_NUM_BANDS 0, trailLastScroll = 0\<rparr>,
      lava = \<lparr>lavaBlobs = replicate LAVA_MAX_BLOBS zeroBlob,
               lavaBandLevels = replicate LAVA_NUM_BANDS 0,
               lavaBandPeaks = replicate LAVA_NUM_BANDS 0,
               lavaDominantBand = 0, lavaAudioLevel = 0, lavaAudioPeak = 100,
               lavaLastAudioLevel = 0\<rparr>,
      spectrumBinPeaks = replicate NUM_BINS 0,
      strip = replicate NUM_LEDS 0\<rparr>"

definition setup_combo :: "millis \<Rightarrow> millis \<Rightarrow> combo" where
  "setup_combo t1 t2 =
     (let s1 = initial\<lparr>strip := strip_clear\<rparr>;
          s2 = trailSetup s1;
          s3 = s2\<lparr>lava := lavaSetup (lava s2)\<rparr>;
          s4 = s3\<lparr>spectrumBinPeaks := spectrumSetup\<rparr>
      in s4\<lparr>lastSwitch := t1, lastSpikeSwitch := t2\<rparr>)"

definition loop :: "cycle \<Rightarrow> combo \<Rightarrow> combo option" where
  "loop inp s = do {
     let s1 = updateGlobalAudioLevel (vReal inp) s;
     s2 \<leftarrow> checkModeSwitch (millisCheck inp) (millisNext inp) s1;
     case currentMode s2 of
       MODE_TRAIL \<Rightarrow> do {
         (ts, fb) \<leftarrow> trailUpdate (vReal inp) (millisTrail inp) (trail s2) (strip s2);
         Some (s2\<lparr>trail := ts, strip := fb\<rparr>)
       }
     | MODE_LAVA \<Rightarrow> do {
         (ls, fb) \<leftarrow> lavaUpdate inp (lava s2);
         Some (s2\<lparr>lava := ls, strip := fb\<rparr>)
       }
     | MODE_SPECTRUM \<Rightarrow> do {
         (peaks, fb) \<leftarrow> spectrumUpdate (vReal inp) (spectrumBinPeaks s2);
         Some (s2\<lparr>spectrumBinPeaks := peaks, strip := fb\<rparr>)
       }
   }"


section \<open>Notions used to state the properties\<close>

text \<open>
  The colour at the logical Trail position \<open>i\<close> (position 0 is the head of the trail), a
  frame buffer of the strip's length whose entries are stored RGB colours, and the colour
  the scroll loop writes at position \<open>i\<close> from the colour it read eight positions nearer
  the head.
\<close>

definition trailPixel :: "color list \<Rightarrow> nat \<Rightarrow> color" where
  "trailPixel fb i = getPixelColor (trailLed (int i)) fb"

definition rgbFrame :: "color list \<Rightarrow> bool" where
  "rgbFrame fb \<longleftrightarrow> length fb = NUM_LEDS \<and> (\<forall>i<NUM_LEDS. fb ! i AND 0xFFFFFF = fb ! i)"

definition scrolledColor :: "real \<Rightarrow> nat \<Rightarrow> color \<Rightarrow> color" where
  "scrolledColor fade i c = (if i \<ge> 16 then trailFadeColor c fade else c) AND 0xFFFFFF"

text \<open>
  Every adaptive peak is at least its floor: the eight Trail band peaks against the noise
  table, the six Lava band peaks and the two loudness peaks against 50, and the peak of
  every spectrum bin from 1 on against the noise floor of its frequency ratio.
\<close>

definition peaksAboveFloors :: "combo \<Rightarrow> bool" where
  "peaksAboveFloors s \<longleftrightarrow>
     (\<forall>b<TRAIL_NUM_BANDS. TRAIL_BAND_NOISE ! b \<le> trailBandPeaks (trail s) ! b) \<and>
     (\<forall>b<LAVA_NUM_BANDS. 50 \<le> lavaBandPeaks (lava s) ! b) \<and>
     50 \<le> globalAudioPeak s \<and>
     50 \<le> lavaAudioPeak (lava s) \<and>
     (\<forall>b. 1 \<le> b \<and> b < NUM_BINS \<longrightarrow>
        spectrumGetNoiseFloor (real b / real (NUM_BINS - 1)) \<le> spectrumBinPeaks s ! b)"

text \<open>
  The blob pool between two passes (an active blob has been faded at least once) and
  between the trigger and the blob update of one pass (a blob may just have been spawned).
\<close>

definition poolDimmed :: "LavaBlob list \<Rightarrow> bool" where
  "poolDimmed blobs \<longleftrightarrow>
     length blobs = LAVA_MAX_BLOBS \<and>
     (\<forall>i<LAVA_MAX_BLOBS. active (blobs ! i) \<longrightarrow> brightness (blobs ! i) \<le> 0.92)"

definition poolBright :: "LavaBlob list \<Rightarrow> bool" where
  "poolBright blobs \<longleftrightarrow>
     length blobs = LAVA_MAX_BLOBS \<and>
     (\<forall>i<LAVA_MAX_BLOBS. active (blobs ! i) \<longrightarrow> brightness (blobs ! i) \<le> 1)"

text \<open>The spectrum bin peaks, with the length of the array.\<close>

definition binsOk :: "real list \<Rightarrow> bool" where
  "binsOk peaks \<longleftrightarrow>
     length peaks = NUM_BINS \<and>
     (\<forall>b. 1 \<le> b \<and> b < NUM_BINS \<longrightarrow>
        spectrumGetNoiseFloor (real b / real (NUM_BINS - 1)) \<le> peaks ! b)"

text \<open>
  What the band loop of \<open>lavaAnalyzeAudio\<close> keeps while it runs on the state \<open>ls0\<close>: the
  lengths, the floor of the band peaks, and the fields it does not write.
\<close>

definition bandsOk :: "lava_state \<Rightarrow> lava_state \<Rightarrow> bool" where
  "bandsOk ls0 ls \<longleftrightarrow>
     length (lavaBandPeaks ls) = LAVA_NUM_BANDS \<and> length (lavaBandLevels ls) = LAVA_NUM_BANDS \<and>
     (\<forall>b<LAVA_NUM_BANDS. 50 \<le> lavaBandPeaks ls ! b) \<and>
     lavaBlobs ls = lavaBlobs ls0 \<and> lavaAudioLevel ls = lavaAudioLevel ls0 \<and>
     lavaAudioPeak ls = lavaAudioPeak ls0 \<and> lavaLastAudioLevel ls = lavaLastAudioLevel ls0"

text \<open>The invariant of the loop: the floors, the array lengths and the dimmed pool.\<close>

definition sound :: "combo \<Rightarrow> bool" where
  "sound s \<longleftrightarrow>
     peaksAboveFloors s \<and>
     length (lavaBandPeaks (lava s)) = LAVA_NUM_BANDS \<and>
     length (lavaBandLevels (lava s)) = LAVA_NUM_BANDS \<and>
     length (spectrumBinPeaks s) = NUM_BINS \<and>
     poolDimmed (lavaBlobs (lava s))"

text \<open>The normalised loudness of a state, as \<open>detectAudioSpike\<close> computes it for \<^verbatim>\<open>cur\<close>.\<close>

definition normalizedLevel :: "combo \<Rightarrow> real" where
  "normalizedLevel s =
     (if globalAudioPeak s \<le> 50 then 0
      else constrain ((globalAudioLevel s - 50) / (globalAudioPeak s - 50)) 0 1)"

section \<open>Concrete states and inputs used to instantiate the theorems\<close>

text \<open>A state right after start-up at time 0 in which the loudness has just jumped to a new peak.\<close>

definition spikeState :: combo where
  "spikeState = (setup_combo 0 0)\<lparr>globalAudioLevel := 1000, globalAudioPeak := 1000\<rparr>"

text \<open>A dark strip whose head pixel is red.\<close>

definition scrollFrame :: "color list" where
  "scrollFrame = setPixelColor (trailLed 0) 0xFF0000 strip_clear"

text \<open>The Lava state right after start-up (no blob is active) and a cycle with fixed random draws.\<close>

definition emptyPool :: lava_state where
  "emptyPool = lava (setup_combo 0 0)"

definition draws :: cycle where
  "draws = \<lparr>vReal = replicate SAMPLES 0, millisCheck = 0, millisNext = 0, millisTrail = 0,
            randPosition = 12345, randDirection = 7, randSpeed = 42, randColor = 3\<rparr>"

text \<open>
  A pool of eight active blobs of brightness 1, and one in which the blobs of slots 3 and
  5 have faded to 0.4.
\<close>

definition brightBlob :: LavaBlob where
  "brightBlob = \<lparr>active = True, position = 50, size_blob = 12, brightness = 1, drift = 0.3,
                 colorIndex = 0\<rparr>"




text \<open>A strip whose pixels all hold the red value 200.\<close>

definition redFrame :: "color list" where
  "redFrame = replicate NUM_LEDS 0xC80000"



text \<open>
  A loud pass at time 30001, which detects a spike after start-up, and a louder pass at
  time 30050, which detects a second one.
\<close>

definition spikeCycle :: cycle where
  "spikeCycle = draws\<lparr>vReal := replicate SAMPLES 1000, millisCheck := 30001,
                       millisNext := 30002, millisTrail := 30003\<rparr>"

definition secondSpikeCycle :: cycle where
  "secondSpikeCycle = draws\<lparr>vReal := replicate SAMPLES 5000, millisCheck := 30050,
                             millisNext := 30051, millisTrail := 30052\<rparr>"

section \<open>Basic facts\<close>

lemma fdiv_Some [simp]: "y \<noteq> 0 \<Longrightarrow> fdiv x y = Some (x / y)"
  by (simp add: fdiv_def)

lemma detectAudioSpike_Some:
  "detectAudioSpike s =
     Some (globalAudioPeak s > 50 \<and>
           constrain ((globalAudioLevel s - 50) / (globalAudioPeak s - 50)) 0 1 > SPIKE_THRESHOLD \<and>
           constrain ((globalAudioLevel s - 50) / (globalAudioPeak s - 50)) 0 1
             > constrain ((globalLastAudioLevel s - 50) / (globalAudioPeak s - 50)) 0 1 + 0.25)"
  by (simp add: detectAudioSpike_def Let_def)

lemma nextMode_ctrl:
  "lastSpikeSwitch (nextMode later s) = lastSpikeSwitch s"
  "lastSwitch (nextMode later s) = later"
  "currentMode (nextMode later s) = mode_of_index ((mode_index (currentMode s) + 1) mod NUM_MODES)"
  by (simp_all add: nextMode_def Let_def trailSetup_def split: Mode.splits)

lemma mode_successor_neq: "mode_of_index ((mode_index m + 1) mod NUM_MODES) \<noteq> m"
  by (cases m) (simp_all add: mode_of_index_def)

lemma spikeState_ctrl:
  "currentMode spikeState = MODE_TRAIL" "lastSwitch spikeState = 0"
  "lastSpikeSwitch spikeState = 0" "detectAudioSpike spikeState = Some True"
  by (simp_all add: spikeState_def setup_combo_def Let_def trailSetup_def initial_def
        detectAudioSpike_Some constrain_def)

section \<open>What every pass of the loop preserves\<close>

lemma for_each_Some:
  assumes "\<And>x s. x \<in> set xs \<Longrightarrow> P s \<Longrightarrow> \<exists>s'. body x s = Some s' \<and> P s'" and "P s"
  shows "\<exists>s'. for_each body xs s = Some s' \<and> P s'"
  using assms
proof (induction xs arbitrary: s)
  case Nil
  then show ?case by simp
next
  case (Cons x xs)
  obtain s1 where s1: "body x s = Some s1" "P s1"
    using Cons.prems(1)[of x s] Cons.prems(2) by auto
  have "\<exists>s'. for_each body xs s1 = Some s' \<and> P s'"
    using Cons.IH[of s1] Cons.prems(1) s1(2) by simp
  then show ?case using s1(1) by simp
qed

lemma constrain_bounds: "lo \<le> hi \<Longrightarrow> lo \<le> constrain x lo hi \<and> constrain x lo hi \<le> hi"
  by (simp add: constrain_def)

lemma trailPeak_floor: "noise \<le> peak \<Longrightarrow> noise \<le> trailPeak band peak noise"
  by (simp add: trailPeak_def)

lemma globalPeak_floor:
  "50 \<le> globalAudioPeak s \<Longrightarrow> 50 \<le> globalAudioPeak (updateGlobalAudioLevel v s)"
  by (simp add: updateGlobalAudioLevel_def Let_def)

lemma updateGlobalAudioLevel_frame:
  "trail (updateGlobalAudioLevel v s) = trail s"
  "lava (updateGlobalAudioLevel v s) = lava s"
  "spectrumBinPeaks (updateGlobalAudioLevel v s) = spectrumBinPeaks s"
  "strip (updateGlobalAudioLevel v s) = strip s"
  "currentMode (updateGlobalAudioLevel v s) = currentMode s"
  "lastSwitch (updateGlobalAudioLevel v s) = lastSwitch s"
  "lastSpikeSwitch (updateGlobalAudioLevel v s) = lastSpikeSwitch s"
  by (simp_all add: updateGlobalAudioLevel_def Let_def)

lemma sound_updateGlobalAudioLevel: "sound s \<Longrightarrow> sound (updateGlobalAudioLevel v s)"
  using globalPeak_floor[of s v]
  by (simp add: sound_def peaksAboveFloors_def updateGlobalAudioLevel_frame)

subsection \<open>Mode change\<close>

lemma spectrumGetNoiseFloor_pos: "0 < spectrumGetNoiseFloor r"
  by (simp add: spectrumGetNoiseFloor_def)

lemma spectrumGetNoiseFloor_twice: "spectrumGetNoiseFloor r \<le> spectrumGetNoiseFloor r * 2"
  using spectrumGetNoiseFloor_pos[of r] by linarith

lemma sound_nextMode: "sound s \<Longrightarrow> sound (nextMode now s)"
proof -
  assume s: "sound s"
  note fl = spectrumGetNoiseFloor_twice
  show ?thesis
  proof (cases "mode_of_index ((mode_index (currentMode s) + 1) mod NUM_MODES)")
    case MODE_TRAIL
    then show ?thesis using s
      by (simp add: nextMode_def Let_def trailSetup_def sound_def peaksAboveFloors_def
            trailSetupPeaks_def del: upt_Suc)
  next
    case MODE_LAVA
    then show ?thesis using s
      by (simp add: nextMode_def Let_def lavaSetup_def sound_def peaksAboveFloors_def
            poolDimmed_def del: upt_Suc)
  next
    case MODE_SPECTRUM
    then show ?thesis using s fl
      by (simp add: nextMode_def Let_def spectrumSetup_def sound_def peaksAboveFloors_def
            del: upt_Suc)
  qed
qed

lemma detectAudioSpike_total: "\<exists>b. detectAudioSpike s = Some b"
  by (cases "globalAudioPeak s \<le> 50") (auto simp add: detectAudioSpike_def Let_def)

lemma checkModeSwitch_sound:
  assumes "sound s"
  shows "\<exists>s'. checkModeSwitch now later s = Some s' \<and> sound s'"
proof -
  obtain b where b: "detectAudioSpike s = Some b" using detectAudioSpike_total by blast
  have "sound (s\<lparr>lastSpikeSwitch := now\<rparr>)"
    using assms by (simp add: sound_def peaksAboveFloors_def)
  then show ?thesis
    using assms b by (simp add: checkModeSwitch_def sound_nextMode)
qed

lemma sound_setup: "sound (setup_combo t1 t2)"
proof -
  note fl = spectrumGetNoiseFloor_twice
  show ?thesis using fl
    by (simp add: setup_combo_def Let_def trailSetup_def lavaSetup_def spectrumSetup_def
        initial_def sound_def peaksAboveFloors_def poolDimmed_def trailSetupPeaks_def del: upt_Suc)
qed

subsection \<open>Trail\<close>

lemma trailIntensity_total:
  "noise \<le> peak \<Longrightarrow> \<exists>x. trailIntensity band noise peak = Some x \<and> 0.2 \<le> x \<and> x \<le> 1"
  using constrain_bounds[of "0.2" 1 "(band - noise) / (peak - noise + 1)"]
  by (simp add: trailIntensity_def)

lemma trailRealtimeLed_total:
  "TRAIL_BAND_NOISE ! b \<le> peaks ! b \<Longrightarrow> \<exists>fb'. trailRealtimeLed bands peaks b fb = Some fb'"
  using trailIntensity_total[of "TRAIL_BAND_NOISE ! b" "peaks ! b" "bands ! b"]
  by (auto simp add: trailRealtimeLed_def Let_def)

lemma trailUpdate_sound:
  assumes "\<forall>b<TRAIL_NUM_BANDS. TRAIL_BAND_NOISE ! b \<le> trailBandPeaks ts ! b"
  shows "\<exists>ts' fb'. trailUpdate v now ts fb = Some (ts', fb') \<and>
           (\<forall>b<TRAIL_NUM_BANDS. TRAIL_BAND_NOISE ! b \<le> trailBandPeaks ts' ! b)"
proof -
  have "\<exists>fb1. for_each (trailRealtimeLed (map (trailBand v) [0..<TRAIL_NUM_BANDS]) (trailBandPeaks ts))
              [0..<min TRAIL_REALTIME_LEDS TRAIL_NUM_BANDS] fb = Some fb1 \<and> True"
  proof (rule for_each_Some)
    fix x :: nat and s :: "color list"
    assume "x \<in> set [0..<min TRAIL_REALTIME_LEDS TRAIL_NUM_BANDS]"
    then have "TRAIL_BAND_NOISE ! x \<le> trailBandPeaks ts ! x" using assms by simp
    then show "\<exists>s'. trailRealtimeLed (map (trailBand v) [0..<TRAIL_NUM_BANDS]) (trailBandPeaks ts) x s = Some s' \<and> True"
      using trailRealtimeLed_total by simp
  qed simp
  then obtain fb1 where fb1: "for_each (trailRealtimeLed (map (trailBand v) [0..<TRAIL_NUM_BANDS]) (trailBandPeaks ts))
              [0..<min TRAIL_REALTIME_LEDS TRAIL_NUM_BANDS] fb = Some fb1" by blast
  show ?thesis
    using assms fb1 by (simp add: trailUpdate_def Let_def trailPeak_floor del: upt_Suc)
qed

subsection \<open>Lava\<close>

lemma lavaNormalize_total:
  "\<exists>x. lavaNormalize y peak = Some x \<and> 0 \<le> x \<and> x \<le> 1"
  using constrain_bounds[of 0 1 "(y - 50) / (peak - 50)"]
  by (cases "peak > 50") (simp_all add: lavaNormalize_def)

lemma peak_decay_floor:
  "50 \<le> p \<Longrightarrow> 50 \<le> (if l > p then l else p * 0.995 + 50 * 0.005)"
  "50 \<le> p \<Longrightarrow> 50 \<le> (if l > p then l else p * 0.99 + 50 * 0.01)"
  for p l :: real
  by auto

lemma lavaAnalyzeBand_ok:
  assumes "b < LAVA_NUM_BANDS" and "bandsOk ls0 ls"
  shows "\<exists>ls' m'. lavaAnalyzeBand v b (ls, m) = Some (ls', m') \<and> bandsOk ls0 ls'"
proof -
  define level where "level = sum_list (map (\<lambda>i. v ! i) [bandBins ! b ..< bandBins ! (b + 1)])
                   / real (bandBins ! (b + 1) - bandBins ! b)"
  define peak where "peak = (if level > lavaBandPeaks ls ! b then level
                 else lavaBandPeaks ls ! b * 0.995 + 50 * 0.005)"
  obtain x where x: "lavaNormalize level peak = Some x"
    using lavaNormalize_total by blast
  have old: "50 \<le> lavaBandPeaks ls ! b" using assms by (simp add: bandsOk_def)
  have pk: "50 \<le> peak" unfolding peak_def using old by (rule peak_decay_floor)
  have upd: "\<forall>c<LAVA_NUM_BANDS. 50 \<le> (lavaBandPeaks ls)[b := peak] ! c"
    using assms pk by (simp add: bandsOk_def nth_list_update)
  have "lavaAnalyzeBand v b (ls, m) =
          Some (if x > m
                then (ls\<lparr>lavaBandLevels := (lavaBandLevels ls)[b := level],
                         lavaBandPeaks := (lavaBandPeaks ls)[b := peak],
                         lavaDominantBand := b\<rparr>, x)
                else (ls\<lparr>lavaBandLevels := (lavaBandLevels ls)[b := level],
                         lavaBandPeaks := (lavaBandPeaks ls)[b := peak]\<rparr>, m))"
  proof -
    have "lavaAnalyzeBand v b (ls, m) = do {
            normalizedLevel \<leftarrow> lavaNormalize level peak;
            Some (if normalizedLevel > m
                then (ls\<lparr>lavaBandLevels := (lavaBandLevels ls)[b := level],
                         lavaBandPeaks := (lavaBandPeaks ls)[b := peak],
                         lavaDominantBand := b\<rparr>, normalizedLevel)
                else (ls\<lparr>lavaBandLevels := (lavaBandLevels ls)[b := level],
                         lavaBandPeaks := (lavaBandPeaks ls)[b := peak]\<rparr>, m)) }"
      unfolding lavaAnalyzeBand_def level_def peak_def Let_def by (simp only: case_prod_conv)
    then show ?thesis by (simp add: x)
  qed
  then show ?thesis
    using assms(2) upd by (simp add: bandsOk_def)
qed

lemma lavaAnalyzeAudio_ok:
  assumes "length (lavaBandPeaks ls) = LAVA_NUM_BANDS" and "length (lavaBandLevels ls) = LAVA_NUM_BANDS"
    and "\<forall>b<LAVA_NUM_BANDS. 50 \<le> lavaBandPeaks ls ! b" and "50 \<le> lavaAudioPeak ls"
  shows "\<exists>ls'. lavaAnalyzeAudio v ls = Some ls' \<and>
           length (lavaBandPeaks ls') = LAVA_NUM_BANDS \<and> length (lavaBandLevels ls') = LAVA_NUM_BANDS \<and>
           (\<forall>b<LAVA_NUM_BANDS. 50 \<le> lavaBandPeaks ls' ! b) \<and> 50 \<le> lavaAudioPeak ls' \<and>
           lavaBlobs ls' = lavaBlobs ls"
proof -
  have start: "bandsOk ls (ls\<lparr>lavaDominantBand := 0\<rparr>)"
    using assms by (simp add: bandsOk_def)
  have "\<exists>r. for_each (lavaAnalyzeBand v) [0..<LAVA_NUM_BANDS] (ls\<lparr>lavaDominantBand := 0\<rparr>, 0) = Some r
             \<and> bandsOk ls (fst r)"
  proof (rule for_each_Some)
    fix x :: nat and st :: "lava_state \<times> real"
    assume x: "x \<in> set [0..<LAVA_NUM_BANDS]" and st: "bandsOk ls (fst st)"
    obtain l m where lm: "st = (l, m)" by (cases st)
    show "\<exists>s'. lavaAnalyzeBand v x st = Some s' \<and> bandsOk ls (fst s')"
      using lavaAnalyzeBand_ok[of x ls l v m] x st unfolding lm by auto
  next
    show "bandsOk ls (fst (ls\<lparr>lavaDominantBand := 0\<rparr>, 0::real))" using start by simp
  qed
  then obtain ls1 m1 where r: "for_each (lavaAnalyzeBand v) [0..<LAVA_NUM_BANDS] (ls\<lparr>lavaDominantBand := 0\<rparr>, 0) = Some (ls1, m1)"
    and ok: "bandsOk ls ls1" by auto
  have pk: "50 \<le> lavaAudioPeak ls1" using ok assms(4) by (simp add: bandsOk_def)
  show ?thesis
    using ok pk unfolding lavaAnalyzeAudio_def r
    by (simp add: Let_def bandsOk_def)
qed

lemma lavaSpawnBlob_frame:
  "lavaBandPeaks (lavaSpawnBlob x inp ls) = lavaBandPeaks ls"
  "lavaBandLevels (lavaSpawnBlob x inp ls) = lavaBandLevels ls"
  "lavaAudioPeak (lavaSpawnBlob x inp ls) = lavaAudioPeak ls"
  by (simp_all add: lavaSpawnBlob_def split: option.splits)

lemma lavaSpawnBlob_bright:
  assumes "poolDimmed (lavaBlobs ls)" and "x \<le> 1"
  shows "poolBright (lavaBlobs (lavaSpawnBlob x inp ls))"
proof (cases "spawnSlot (lavaBlobs ls)")
  case None
  then show ?thesis using assms(1) by (auto simp add: lavaSpawnBlob_def poolBright_def poolDimmed_def)
next
  case (Some slot)
  have "brightness (spawnedBlob x inp (lavaDominantBand ls)) \<le> 1"
    using assms(2) by (simp add: spawnedBlob_def)
  moreover have "brightness (lavaBlobs ls ! i) \<le> 1"
    if "i < LAVA_MAX_BLOBS" "active (lavaBlobs ls ! i)" for i
    using assms(1) that by (auto simp add: poolDimmed_def)
  ultimately have "brightness ((lavaBlobs ls)[slot := spawnedBlob x inp (lavaDominantBand ls)] ! i) \<le> 1"
    if "i < LAVA_MAX_BLOBS" "active ((lavaBlobs ls)[slot := spawnedBlob x inp (lavaDominantBand ls)] ! i)" for i
    using that assms(1) by (cases "i = slot") (simp_all add: poolDimmed_def)
  then show ?thesis
    using assms(1) Some by (simp add: lavaSpawnBlob_def poolBright_def poolDimmed_def)
qed

lemma lavaCheckTrigger_ok:
  assumes "poolDimmed (lavaBlobs ls)"
  shows "\<exists>ls'. lavaCheckTrigger inp ls = Some ls' \<and> poolBright (lavaBlobs ls') \<and>
           lavaBandPeaks ls' = lavaBandPeaks ls \<and> lavaBandLevels ls' = lavaBandLevels ls \<and>
           lavaAudioPeak ls' = lavaAudioPeak ls"
proof -
  obtain a where a: "lavaNormalize (lavaAudioLevel ls) (lavaAudioPeak ls) = Some a" "a \<le> 1"
    using lavaNormalize_total by blast
  obtain l where l: "lavaNormalize (lavaLastAudioLevel ls) (lavaAudioPeak ls) = Some l"
    using lavaNormalize_total by blast
  have "poolBright (lavaBlobs ls)"
    using assms by (auto simp add: poolBright_def poolDimmed_def)
  then show ?thesis
    using lavaSpawnBlob_bright[OF assms a(2), of inp]
    by (simp add: lavaCheckTrigger_def a(1) l lavaSpawnBlob_frame)
qed

lemma lavaUpdateBlob_active:
  "active (lavaUpdateBlob b) \<Longrightarrow>
     active b \<and> brightness (lavaUpdateBlob b) = brightness b * LAVA_FADE_RATE \<and>
     1 \<le> size_blob (lavaUpdateBlob b)"
  by (auto simp add: lavaUpdateBlob_def Let_def split: if_splits)

lemma lavaUpdateBlobs_ok:
  assumes "poolBright (lavaBlobs ls)"
  shows "poolDimmed (lavaBlobs (lavaUpdateBlobs ls))"
    and "\<forall>i<LAVA_MAX_BLOBS. active (lavaBlobs (lavaUpdateBlobs ls) ! i)
            \<longrightarrow> 1 \<le> size_blob (lavaBlobs (lavaUpdateBlobs ls) ! i)"
proof -
  show "poolDimmed (lavaBlobs (lavaUpdateBlobs ls))"
    unfolding poolDimmed_def
  proof (intro conjI allI impI)
    show "length (lavaBlobs (lavaUpdateBlobs ls)) = LAVA_MAX_BLOBS"
      by (simp add: lavaUpdateBlobs_def del: upt_Suc)
  next
    fix i :: nat assume i: "i < LAVA_MAX_BLOBS"
      and a: "active (lavaBlobs (lavaUpdateBlobs ls) ! i)"
    have e: "lavaBlobs (lavaUpdateBlobs ls) ! i = lavaUpdateBlob (lavaBlobs ls ! i)"
      using i by (simp add: lavaUpdateBlobs_def del: upt_Suc)
    have "active (lavaBlobs ls ! i)" "brightness (lavaUpdateBlob (lavaBlobs ls ! i)) = brightness (lavaBlobs ls ! i) * LAVA_FADE_RATE"
      using lavaUpdateBlob_active[of "lavaBlobs ls ! i"] a e by simp_all
    moreover have "brightness (lavaBlobs ls ! i) \<le> 1"
      using assms i calculation(1) by (simp add: poolBright_def)
    ultimately show "brightness (lavaBlobs (lavaUpdateBlobs ls) ! i) \<le> 0.92"
      unfolding e by simp
  qed
  show "\<forall>i<LAVA_MAX_BLOBS. active (lavaBlobs (lavaUpdateBlobs ls) ! i)
            \<longrightarrow> 1 \<le> size_blob (lavaBlobs (lavaUpdateBlobs ls) ! i)"
    using lavaUpdateBlob_active by (simp add: lavaUpdateBlobs_def del: upt_Suc)
qed

lemma lavaUpdateBlobs_frame:
  "lavaBandPeaks (lavaUpdateBlobs ls) = lavaBandPeaks ls"
  "lavaBandLevels (lavaUpdateBlobs ls) = lavaBandLevels ls"
  "lavaAudioPeak (lavaUpdateBlobs ls) = lavaAudioPeak ls"
  by (simp_all add: lavaUpdateBlobs_def)

lemma lavaFalloff_total:
  "size_blob blob \<noteq> 0 \<Longrightarrow> \<exists>x. lavaFalloff blob i = Some x \<and> 0 \<le> x \<and> x \<le> 1"
  using constrain_bounds[of 0 1]
  by (simp add: lavaFalloff_def Let_def)

lemma lavaRenderBlob_total:
  assumes "active blob \<longrightarrow> size_blob blob \<noteq> 0"
  shows "\<exists>fb'. lavaRenderBlob blob fb = Some fb'"
proof (cases "active blob")
  case False
  then show ?thesis by (simp add: lavaRenderBlob_def)
next
  case True
  then have nz: "size_blob blob \<noteq> 0" using assms by simp
  have "\<exists>fb'. for_each (lavaRenderPixel blob)
           [max 0 (float_to_int (position blob - size_blob blob))
            ..min (int NUM_LEDS - 1) (float_to_int (position blob + size_blob blob))] fb = Some fb' \<and> True"
  proof (rule for_each_Some)
    fix i :: int and s :: "color list"
    obtain x where "lavaFalloff blob i = Some x" using lavaFalloff_total[OF nz] by blast
    then show "\<exists>s'. lavaRenderPixel blob i s = Some s' \<and> True"
      by (simp add: lavaRenderPixel_def)
  qed simp
  then show ?thesis using True by (simp add: lavaRenderBlob_def Let_def)
qed

lemma lavaRender_total:
  assumes "\<forall>i<LAVA_MAX_BLOBS. active (lavaBlobs ls ! i) \<longrightarrow> size_blob (lavaBlobs ls ! i) \<noteq> 0"
  shows "\<exists>fb. lavaRender ls = Some fb"
proof -
  have "\<exists>fb. for_each (\<lambda>b. lavaRenderBlob (lavaBlobs ls ! b)) [0..<LAVA_MAX_BLOBS] strip_clear = Some fb \<and> True"
  proof (rule for_each_Some)
    fix b :: nat and s :: "color list"
    assume "b \<in> set [0..<LAVA_MAX_BLOBS]"
    then have "active (lavaBlobs ls ! b) \<longrightarrow> size_blob (lavaBlobs ls ! b) \<noteq> 0"
      using assms by simp
    then show "\<exists>s'. lavaRenderBlob (lavaBlobs ls ! b) s = Some s' \<and> True"
      using lavaRenderBlob_total by simp
  qed simp
  then show ?thesis by (simp add: lavaRender_def)
qed

lemma lavaUpdate_ok:
  assumes "length (lavaBandPeaks ls) = LAVA_NUM_BANDS" and "length (lavaBandLevels ls) = LAVA_NUM_BANDS"
    and "\<forall>b<LAVA_NUM_BANDS. 50 \<le> lavaBandPeaks ls ! b" and "50 \<le> lavaAudioPeak ls"
    and "poolDimmed (lavaBlobs ls)"
  shows "\<exists>ls' fb. lavaUpdate inp ls = Some (ls', fb) \<and>
           length (lavaBandPeaks ls') = LAVA_NUM_BANDS \<and> length (lavaBandLevels ls') = LAVA_NUM_BANDS \<and>
           (\<forall>b<LAVA_NUM_BANDS. 50 \<le> lavaBandPeaks ls' ! b) \<and> 50 \<le> lavaAudioPeak ls' \<and>
           poolDimmed (lavaBlobs ls')"
proof -
  obtain ls1 where 1: "lavaAnalyzeAudio (vReal inp) ls = Some ls1"
    and p1: "length (lavaBandPeaks ls1) = LAVA_NUM_BANDS" "length (lavaBandLevels ls1) = LAVA_NUM_BANDS"
       "\<forall>b<LAVA_NUM_BANDS. 50 \<le> lavaBandPeaks ls1 ! b" "50 \<le> lavaAudioPeak ls1"
       "lavaBlobs ls1 = lavaBlobs ls"
    using lavaAnalyzeAudio_ok[OF assms(1-4), of "vReal inp"] by blast
  have "poolDimmed (lavaBlobs ls1)" using assms(5) p1(5) by simp
  then obtain ls2 where 2: "lavaCheckTrigger inp ls1 = Some ls2"
    and p2: "poolBright (lavaBlobs ls2)" "lavaBandPeaks ls2 = lavaBandPeaks ls1"
       "lavaBandLevels ls2 = lavaBandLevels ls1" "lavaAudioPeak ls2 = lavaAudioPeak ls1"
    using lavaCheckTrigger_ok[of ls1 inp] by blast
  have "\<forall>i<LAVA_MAX_BLOBS. active (lavaBlobs (lavaUpdateBlobs ls2) ! i)
            \<longrightarrow> size_blob (lavaBlobs (lavaUpdateBlobs ls2) ! i) \<noteq> 0"
    using lavaUpdateBlobs_ok(2)[OF p2(1)] by fastforce
  then obtain fb where 3: "lavaRender (lavaUpdateBlobs ls2) = Some fb"
    using lavaRender_total by blast
  show ?thesis
    using p1 p2 lavaUpdateBlobs_ok(1)[OF p2(1)]
    by (simp add: lavaUpdate_def 1 2 3 lavaUpdateBlobs_frame)
qed

subsection \<open>Spectrum\<close>

lemma fold_invariant:
  "(\<And>x s. x \<in> set xs \<Longrightarrow> P s \<Longrightarrow> P (f x s)) \<Longrightarrow> P s \<Longrightarrow> P (fold f xs s)"
  by (induction xs arbitrary: s) simp_all

lemma bin_decay_floor:
  "n \<le> p \<Longrightarrow> n \<le> (if x > p then x else p * 0.995 + n * 0.005)" for n p x :: real
  by auto

lemma spectrumPeak_ok:
  assumes "binsOk peaks" and "1 \<le> b" and "b < NUM_BINS"
  shows "binsOk (spectrumPeak v b peaks)"
proof -
  define n where "n = spectrumGetNoiseFloor (real b / real (NUM_BINS - 1))"
  have old: "n \<le> peaks ! b" using assms by (simp add: binsOk_def n_def)
  have new: "n \<le> (if v ! b > peaks ! b then v ! b else peaks ! b * 0.995 + n * 0.005)"
    using old by (rule bin_decay_floor)
  have e: "spectrumPeak v b peaks
             = peaks[b := (if v ! b > peaks ! b then v ! b else peaks ! b * 0.995 + n * 0.005)]"
    unfolding spectrumPeak_def n_def Let_def by simp
  show ?thesis
    unfolding e binsOk_def
  proof (intro conjI allI impI)
    show "length (peaks[b := if peaks ! b < v ! b then v ! b else peaks ! b * 0.995 + n * 0.005]) = NUM_BINS"
      using assms(1) by (simp add: binsOk_def)
  next
    fix c :: nat assume c: "1 \<le> c \<and> c < NUM_BINS"
    show "spectrumGetNoiseFloor (real c / real (NUM_BINS - 1))
            \<le> peaks[b := if peaks ! b < v ! b then v ! b else peaks ! b * 0.995 + n * 0.005] ! c"
    proof (cases "c = b")
      case True
      then show ?thesis using new assms(1,3) by (simp add: binsOk_def n_def)
    next
      case False
      then show ?thesis using assms(1) c by (simp add: binsOk_def)
    qed
  qed
qed

lemma spectrumPeaks_ok: "binsOk peaks \<Longrightarrow> binsOk (spectrumPeaks v peaks)"
  unfolding spectrumPeaks_def
  by (rule fold_invariant) (simp_all add: spectrumPeak_ok)

lemma spectrumIntensity_total:
  "\<exists>x. spectrumIntensity val peak noiseFloor = Some x \<and> 0 \<le> x \<and> x \<le> 1"
  using constrain_bounds[of 0 1]
  by (cases "val > noiseFloor \<and> peak > noiseFloor") (simp_all add: spectrumIntensity_def)

lemma bind_total:
  "\<exists>x. m = Some x \<Longrightarrow> (\<And>x. \<exists>y. f x = Some y) \<Longrightarrow> \<exists>y. m \<bind> f = Some y"
  by auto

lemma spectrumRenderLed_total: "\<exists>fb'. spectrumRenderLed v peaks i fb = Some fb'"
  unfolding spectrumRenderLed_def Let_def
  by (rule bind_total, insert spectrumIntensity_total, blast, simp)

lemma spectrumUpdate_ok:
  assumes "binsOk peaks"
  shows "\<exists>peaks' fb. spectrumUpdate v peaks = Some (peaks', fb) \<and> binsOk peaks'"
proof -
  have "\<exists>fb. for_each (spectrumRenderLed v (spectrumPeaks v peaks)) [0..<SPECTRUM_ACTIVE_LEDS] strip_clear
              = Some fb \<and> True"
    by (rule for_each_Some) (simp_all add: spectrumRenderLed_total)
  then show ?thesis
    using spectrumPeaks_ok[OF assms, of v] by (auto simp add: spectrumUpdate_def Let_def)
qed

subsection \<open>The whole pass\<close>

lemma sound_parts:
  "sound s \<longleftrightarrow>
     (\<forall>b<TRAIL_NUM_BANDS. TRAIL_BAND_NOISE ! b \<le> trailBandPeaks (trail s) ! b) \<and>
     (length (lavaBandPeaks (lava s)) = LAVA_NUM_BANDS \<and>
      length (lavaBandLevels (lava s)) = LAVA_NUM_BANDS \<and>
      (\<forall>b<LAVA_NUM_BANDS. 50 \<le> lavaBandPeaks (lava s) ! b) \<and>
      50 \<le> lavaAudioPeak (lava s) \<and> poolDimmed (lavaBlobs (lava s))) \<and>
     50 \<le> globalAudioPeak s \<and> binsOk (spectrumBinPeaks s)"
  unfolding sound_def peaksAboveFloors_def binsOk_def by auto

lemma loop_sound:
  assumes "sound s"
  shows "\<exists>s'. loop inp s = Some s' \<and> sound s'"
proof -
  obtain s2 where c: "checkModeSwitch (millisCheck inp) (millisNext inp)
                        (updateGlobalAudioLevel (vReal inp) s) = Some s2"
    and s2: "sound s2"
    using checkModeSwitch_sound[OF sound_updateGlobalAudioLevel[OF assms]] by blast
  note p = s2[unfolded sound_parts]
  show ?thesis
  proof (cases "currentMode s2")
    case MODE_TRAIL
    obtain ts fb where u: "trailUpdate (vReal inp) (millisTrail inp) (trail s2) (strip s2) = Some (ts, fb)"
      and t: "\<forall>b<TRAIL_NUM_BANDS. TRAIL_BAND_NOISE ! b \<le> trailBandPeaks ts ! b"
      using trailUpdate_sound[of "trail s2"] p by blast
    have "sound (s2\<lparr>trail := ts, strip := fb\<rparr>)"
      unfolding sound_parts using p t by simp
    then show ?thesis by (simp add: loop_def Let_def c MODE_TRAIL u)
  next
    case MODE_LAVA
    obtain ls fb where u: "lavaUpdate inp (lava s2) = Some (ls, fb)"
      and t: "length (lavaBandPeaks ls) = LAVA_NUM_BANDS" "length (lavaBandLevels ls) = LAVA_NUM_BANDS"
           "\<forall>b<LAVA_NUM_BANDS. 50 \<le> lavaBandPeaks ls ! b" "50 \<le> lavaAudioPeak ls"
           "poolDimmed (lavaBlobs ls)"
      using lavaUpdate_ok[of "lava s2" inp] p by blast
    have "sound (s2\<lparr>lava := ls, strip := fb\<rparr>)"
      unfolding sound_parts using p t by simp
    then show ?thesis by (simp add: loop_def Let_def c MODE_LAVA u)
  next
    case MODE_SPECTRUM
    obtain peaks fb where u: "spectrumUpdate (vReal inp) (spectrumBinPeaks s2) = Some (peaks, fb)"
      and t: "binsOk peaks"
      using spectrumUpdate_ok[of "spectrumBinPeaks s2"] p by blast
    have "sound (s2\<lparr>spectrumBinPeaks := peaks, strip := fb\<rparr>)"
      unfolding sound_parts using p t by simp
    then show ?thesis by (simp add: loop_def Let_def c MODE_SPECTRUM u)
  qed
qed


section \<open>Adaptive peaks and normalisations\<close>





section \<open>Spike detection\<close>

lemma audioMean_replicate: "audioMean (replicate SAMPLES c) = c"
proof -
  have "map (\<lambda>i. replicate SAMPLES c ! i) [1..<NUM_BINS] = map (\<lambda>i. c) [1..<NUM_BINS]"
    by (rule map_cong) simp_all
  then have "sum_list (map (\<lambda>i. replicate SAMPLES c ! i) [1..<NUM_BINS]) = 31 * c"
    by (simp only: sum_list_triv) simp
  then show ?thesis
    unfolding audioMean_def by simp
qed

lemma updateGlobalAudioLevel_fields:
  "globalLastAudioLevel (updateGlobalAudioLevel v s) = globalAudioLevel s"
  "globalAudioLevel (updateGlobalAudioLevel v s)
     = (if audioMean v > globalAudioLevel s then audioMean v
        else globalAudioLevel s * 0.7 + audioMean v * 0.3)"
  "globalAudioPeak (updateGlobalAudioLevel v s)
     = (if globalAudioLevel (updateGlobalAudioLevel v s) > globalAudioPeak s
        then globalAudioLevel (updateGlobalAudioLevel v s)
        else globalAudioPeak s * 0.99 + 50 * 0.01)"
  by (simp_all add: updateGlobalAudioLevel_def Let_def)








lemma setup_audio:
  "globalAudioLevel (setup_combo t1 t2) = 0" "globalAudioPeak (setup_combo t1 t2) = 100"
  "globalLastAudioLevel (setup_combo t1 t2) = 0"
  by (simp_all add: setup_combo_def Let_def trailSetup_def initial_def)





section \<open>The mode controller\<close>

lemma loop_controller:
  assumes "checkModeSwitch (millisCheck inp) (millisNext inp)
             (updateGlobalAudioLevel (vReal inp) s) = Some c"
    and "loop inp s = Some s'"
  shows "currentMode s' = currentMode c \<and> lastSwitch s' = lastSwitch c \<and>
         lastSpikeSwitch s' = lastSpikeSwitch c \<and>
         globalAudioLevel s' = globalAudioLevel c \<and> globalAudioPeak s' = globalAudioPeak c \<and>
         globalLastAudioLevel s' = globalLastAudioLevel c"
  using assms
  by (cases "currentMode c")
     (auto simp add: loop_def Let_def split: Option.bind_splits)

lemma no_switch_in_window:
  assumes "MIN_MODE_TIME_MS + 1 \<le> later" and "later \<le> now"
    and "now < MIN_MODE_TIME_MS + 1 + MIN_MODE_TIME_MS"
    and "lastSwitch c = later" and "lastSpikeSwitch c = MIN_MODE_TIME_MS + 1"
  shows "checkModeSwitch now next c = Some c"
proof -
  have p: "\<not> SWITCH_INTERVAL_MS \<le> now - later"
    using assms(1,2,3) by unat_arith
  have d: "\<not> MIN_MODE_TIME_MS \<le> now - (MIN_MODE_TIME_MS + 1)"
    using assms(1,2,3) by unat_arith
  show ?thesis
    using p d assms(4,5) by (simp add: checkModeSwitch_def)
qed

lemma loop_in_window:
  assumes "sound s" and "currentMode s = MODE_LAVA" and "lastSwitch s = later"
    and "lastSpikeSwitch s = MIN_MODE_TIME_MS + 1"
    and "MIN_MODE_TIME_MS + 1 \<le> later" and "later \<le> millisCheck inp"
    and "millisCheck inp < MIN_MODE_TIME_MS + 1 + MIN_MODE_TIME_MS"
  shows "\<exists>s'. loop inp s = Some s' \<and> sound s' \<and> currentMode s' = MODE_LAVA \<and>
              lastSwitch s' = later \<and> lastSpikeSwitch s' = MIN_MODE_TIME_MS + 1"
proof -
  obtain s' where l: "loop inp s = Some s'" and snd: "sound s'"
    using loop_sound[OF assms(1)] by blast
  have c: "checkModeSwitch (millisCheck inp) (millisNext inp) (updateGlobalAudioLevel (vReal inp) s)
             = Some (updateGlobalAudioLevel (vReal inp) s)"
    using assms(3,4) by (intro no_switch_in_window[OF assms(5,6,7)])
                        (simp_all add: updateGlobalAudioLevel_frame)
  show ?thesis
    using loop_controller[OF c l] l snd assms(2,3,4) by (simp add: updateGlobalAudioLevel_frame)
qed

text \<open>
  Claim C2. The dwell time is shorter than the periodic interval. Start in Trail with both
  timestamps at 0, in a state the firmware can be in. In a pass whose clock reading in
  \<open>checkModeSwitch\<close> is \<open>MIN_MODE_TIME_MS + 1\<close> and in which a spike is detected,
  \<open>checkModeSwitch\<close> switches at once: the pass ends in Lava with that reading as the last
  spike switch. Through any further passes whose readings lie before
  \<open>MIN_MODE_TIME_MS\<close> more milliseconds have passed, whatever their audio (a second spike
  included), the mode stays Lava and both timestamps stay as they are: in that window
  \<open>checkModeSwitch\<close> returns the state it is given.
\<close>

theorem spike_switch_then_dwell:
  assumes "sound s" and "currentMode s = MODE_TRAIL"
    and "lastSwitch s = 0" and "lastSpikeSwitch s = 0"
    and "millisCheck inp1 = MIN_MODE_TIME_MS + 1" and "MIN_MODE_TIME_MS + 1 \<le> millisNext inp1"
    and "detectAudioSpike (updateGlobalAudioLevel (vReal inp1) s) = Some True"
    and "\<forall>inp \<in> set inps. millisNext inp1 \<le> millisCheck inp \<and>
                          millisCheck inp < MIN_MODE_TIME_MS + 1 + MIN_MODE_TIME_MS"
  shows "MIN_MODE_TIME_MS < SWITCH_INTERVAL_MS \<and>
         checkModeSwitch (MIN_MODE_TIME_MS + 1) (millisNext inp1) (updateGlobalAudioLevel (vReal inp1) s)
           = Some (nextMode (millisNext inp1)
                     ((updateGlobalAudioLevel (vReal inp1) s)\<lparr>lastSpikeSwitch := MIN_MODE_TIME_MS + 1\<rparr>)) \<and>
         (\<exists>s1. loop inp1 s = Some s1 \<and> currentMode s1 = MODE_LAVA \<and>
               lastSwitch s1 = millisNext inp1 \<and> lastSpikeSwitch s1 = MIN_MODE_TIME_MS + 1 \<and>
               (\<exists>s2. for_each loop inps s1 = Some s2 \<and> currentMode s2 = MODE_LAVA \<and>
                     lastSwitch s2 = millisNext inp1 \<and>
                     lastSpikeSwitch s2 = MIN_MODE_TIME_MS + 1)) \<and>
         (\<forall>inp \<in> set inps. \<forall>c. lastSwitch c = millisNext inp1 \<and>
              lastSpikeSwitch c = MIN_MODE_TIME_MS + 1 \<longrightarrow>
              checkModeSwitch (millisCheck inp) (millisNext inp) c = Some c)"
proof -
  let ?u = "updateGlobalAudioLevel (vReal inp1) s"
  let ?n = "nextMode (millisNext inp1) (?u\<lparr>lastSpikeSwitch := MIN_MODE_TIME_MS + 1\<rparr>)"
  have first: "checkModeSwitch (MIN_MODE_TIME_MS + 1) (millisNext inp1) ?u = Some ?n"
    using assms(3,4,7) by (simp add: checkModeSwitch_def updateGlobalAudioLevel_frame)
  obtain s1 where l: "loop inp1 s = Some s1" and snd: "sound s1"
    using loop_sound[OF assms(1)] by blast
  have f: "currentMode s1 = MODE_LAVA \<and> lastSwitch s1 = millisNext inp1 \<and>
           lastSpikeSwitch s1 = MIN_MODE_TIME_MS + 1"
    using loop_controller[OF first[folded assms(5)] l] assms(2,5)
    by (simp add: nextMode_ctrl updateGlobalAudioLevel_frame mode_of_index_def)
  have "\<exists>s2. for_each loop inps s1 = Some s2 \<and>
          (sound s2 \<and> currentMode s2 = MODE_LAVA \<and> lastSwitch s2 = millisNext inp1 \<and>
           lastSpikeSwitch s2 = MIN_MODE_TIME_MS + 1)"
  proof (rule for_each_Some)
    fix x :: cycle and t :: combo
    assume x: "x \<in> set inps"
      and t: "sound t \<and> currentMode t = MODE_LAVA \<and> lastSwitch t = millisNext inp1 \<and>
              lastSpikeSwitch t = MIN_MODE_TIME_MS + 1"
    have w: "millisNext inp1 \<le> millisCheck x"
            "millisCheck x < MIN_MODE_TIME_MS + 1 + MIN_MODE_TIME_MS"
      using assms(8) x by blast+
    show "\<exists>s'. loop x t = Some s' \<and>
            (sound s' \<and> currentMode s' = MODE_LAVA \<and> lastSwitch s' = millisNext inp1 \<and>
             lastSpikeSwitch s' = MIN_MODE_TIME_MS + 1)"
      using loop_in_window[OF _ _ _ _ assms(6) w, of t] t by blast
  next
    show "sound s1 \<and> currentMode s1 = MODE_LAVA \<and> lastSwitch s1 = millisNext inp1 \<and>
          lastSpikeSwitch s1 = MIN_MODE_TIME_MS + 1"
      using snd f by simp
  qed
  then have passes: "\<exists>s1. loop inp1 s = Some s1 \<and> currentMode s1 = MODE_LAVA \<and>
               lastSwitch s1 = millisNext inp1 \<and> lastSpikeSwitch s1 = MIN_MODE_TIME_MS + 1 \<and>
               (\<exists>s2. for_each loop inps s1 = Some s2 \<and> currentMode s2 = MODE_LAVA \<and>
                     lastSwitch s2 = millisNext inp1 \<and>
                     lastSpikeSwitch s2 = MIN_MODE_TIME_MS + 1)"
    using l f by blast
  have quiet: "\<forall>inp \<in> set inps. \<forall>c. lastSwitch c = millisNext inp1 \<and>
              lastSpikeSwitch c = MIN_MODE_TIME_MS + 1 \<longrightarrow>
              checkModeSwitch (millisCheck inp) (millisNext inp) c = Some c"
    using assms(8) no_switch_in_window[OF assms(6)] by blast
  have "MIN_MODE_TIME_MS < SWITCH_INTERVAL_MS" by simp
  then show ?thesis
    using first passes quiet by blast
qed

lemma spikeCycle_fields:
  "millisCheck spikeCycle = 30001" "millisNext spikeCycle = 30002"
  "vReal spikeCycle = replicate SAMPLES 1000"
  "millisCheck secondSpikeCycle = 30050" "millisNext secondSpikeCycle = 30051"
  "vReal secondSpikeCycle = replicate SAMPLES 5000"
  by (simp_all add: spikeCycle_def secondSpikeCycle_def draws_def)

theorem spike_switch_then_dwell_witness:
  "detectAudioSpike (updateGlobalAudioLevel (vReal spikeCycle) (setup_combo 0 0)) = Some True \<and>
   (\<exists>s1. loop spikeCycle (setup_combo 0 0) = Some s1 \<and> currentMode s1 = MODE_LAVA \<and>
         lastSpikeSwitch s1 = 30001 \<and>
         detectAudioSpike (updateGlobalAudioLevel (vReal secondSpikeCycle) s1) = Some True \<and>
         (\<exists>s2. loop secondSpikeCycle s1 = Some s2 \<and> currentMode s2 = MODE_LAVA \<and>
               lastSpikeSwitch s2 = 30001))"
proof -
  let ?u = "updateGlobalAudioLevel (vReal spikeCycle) (setup_combo 0 0)"
  have sp: "detectAudioSpike ?u = Some True"
    by (simp add: detectAudioSpike_Some updateGlobalAudioLevel_fields spikeCycle_fields
          audioMean_replicate setup_audio constrain_def)
  have st: "currentMode (setup_combo 0 0) = MODE_TRAIL" "lastSwitch (setup_combo 0 0) = 0"
    "lastSpikeSwitch (setup_combo 0 0) = 0"
    by (simp_all add: setup_combo_def Let_def trailSetup_def initial_def)
  have win: "\<forall>inp \<in> set [secondSpikeCycle]. millisNext spikeCycle \<le> millisCheck inp \<and>
                          millisCheck inp < MIN_MODE_TIME_MS + 1 + MIN_MODE_TIME_MS"
    by (simp add: spikeCycle_fields)
  note th = spike_switch_then_dwell[OF sound_setup st _ _ sp win]
  have c: "checkModeSwitch (millisCheck spikeCycle) (millisNext spikeCycle) ?u
             = Some (nextMode (millisNext spikeCycle) (?u\<lparr>lastSpikeSwitch := 30001\<rparr>))"
    using th by (simp add: spikeCycle_fields)
  obtain s1 s2 where s1: "loop spikeCycle (setup_combo 0 0) = Some s1" "currentMode s1 = MODE_LAVA"
      "lastSpikeSwitch s1 = 30001"
    and s2: "for_each loop [secondSpikeCycle] s1 = Some s2" "currentMode s2 = MODE_LAVA"
      "lastSpikeSwitch s2 = 30001"
    using th by (auto simp add: spikeCycle_fields)
  have a: "globalAudioLevel s1 = 1000" "globalAudioPeak s1 = 1000"
    using loop_controller[OF c s1(1)]
    by (simp_all add: nextMode_def Let_def trailSetup_def updateGlobalAudioLevel_fields
          spikeCycle_fields audioMean_replicate setup_audio split: Mode.splits)
  have sp2: "detectAudioSpike (updateGlobalAudioLevel (vReal secondSpikeCycle) s1) = Some True"
    by (simp add: detectAudioSpike_Some updateGlobalAudioLevel_fields spikeCycle_fields
          audioMean_replicate a constrain_def)
  have l2: "loop secondSpikeCycle s1 = Some s2"
    using s2(1) by (simp split: option.splits)
  show ?thesis
    using sp s1 sp2 l2 s2(2,3) by blast
qed

text \<open>
  Claim C10. \<open>nextMode\<close> writes \<open>lastSwitch\<close> and leaves \<open>lastSpikeSwitch\<close> alone, so a
  periodic switch does not restart the dwell time of the spike guard. Let the periodic
  branch switch at \<open>now1\<close>, and let \<open>s2\<close> be the state at a later check (same controller
  fields, any audio state) at time \<open>now2\<close>. If \<open>MIN_MODE_TIME_MS\<close> has passed since the
  last spike switch and a spike is detected, \<open>checkModeSwitch\<close> advances the mode again,
  however short the time since the periodic switch.
\<close>

theorem spike_guard_not_reset_by_periodic_switch:
  assumes "SWITCH_INTERVAL_MS \<le> now1 - lastSwitch s"
    and "currentMode s2 = currentMode (nextMode later1 s)"
    and "lastSwitch s2 = lastSwitch (nextMode later1 s)"
    and "lastSpikeSwitch s2 = lastSpikeSwitch (nextMode later1 s)"
    and "MIN_MODE_TIME_MS \<le> now2 - lastSpikeSwitch s"
    and "detectAudioSpike s2 = Some True"
  shows "lastSwitch (nextMode later1 s) = later1 \<and>
         lastSpikeSwitch (nextMode later1 s) = lastSpikeSwitch s \<and>
         checkModeSwitch now1 later1 s = Some (nextMode later1 s) \<and>
         checkModeSwitch now2 later2 s2
           = Some (nextMode later2 (if SWITCH_INTERVAL_MS \<le> now2 - later1 then s2
                                    else s2\<lparr>lastSpikeSwitch := now2\<rparr>)) \<and>
         currentMode (nextMode later2 (if SWITCH_INTERVAL_MS \<le> now2 - later1 then s2
                                       else s2\<lparr>lastSpikeSwitch := now2\<rparr>))
           = mode_of_index ((mode_index (currentMode s2) + 1) mod NUM_MODES) \<and>
         mode_of_index ((mode_index (currentMode s2) + 1) mod NUM_MODES) \<noteq> currentMode s2"
proof -
  have periodic: "checkModeSwitch now1 later1 s = Some (nextMode later1 s)"
    using assms(1) by (simp add: checkModeSwitch_def)
  have guard: "MIN_MODE_TIME_MS \<le> now2 - lastSpikeSwitch s2"
    using assms(4,5) by (simp add: nextMode_ctrl)
  have l: "lastSwitch s2 = later1"
    using assms(3) by (simp add: nextMode_ctrl)
  have spike: "checkModeSwitch now2 later2 s2
           = Some (nextMode later2 (if SWITCH_INTERVAL_MS \<le> now2 - later1 then s2
                                    else s2\<lparr>lastSpikeSwitch := now2\<rparr>))"
    using guard l assms(6) by (simp add: checkModeSwitch_def)
  show ?thesis
    using periodic spike mode_successor_neq [of "currentMode s2"] by (simp add: nextMode_ctrl)
qed

theorem spike_guard_not_reset_by_periodic_switch_witness:
  "SWITCH_INTERVAL_MS \<le> 90000 - lastSwitch spikeState \<and>
   MIN_MODE_TIME_MS \<le> 90003 - lastSpikeSwitch spikeState \<and>
   detectAudioSpike (nextMode 90001 spikeState) = Some True \<and>
   checkModeSwitch 90000 90001 spikeState = Some (nextMode 90001 spikeState) \<and>
   currentMode (nextMode 90001 spikeState) = MODE_LAVA \<and>
   checkModeSwitch 90003 90004 (nextMode 90001 spikeState)
     = Some (nextMode 90004 ((nextMode 90001 spikeState)\<lparr>lastSpikeSwitch := 90003\<rparr>)) \<and>
   currentMode (nextMode 90004 ((nextMode 90001 spikeState)\<lparr>lastSpikeSwitch := 90003\<rparr>))
     = MODE_SPECTRUM"
proof -
  have sp: "detectAudioSpike (nextMode 90001 spikeState) = Some True"
    by (simp add: detectAudioSpike_Some nextMode_def Let_def trailSetup_def spikeState_def
          setup_combo_def initial_def constrain_def mode_of_index_def)
  show ?thesis
    using spike_guard_not_reset_by_periodic_switch
            [of 90000 spikeState "nextMode 90001 spikeState" 90001 90003 90004] sp
    by (simp add: spikeState_ctrl nextMode_ctrl mode_of_index_def)
qed

section \<open>The Lava blob pool\<close>

lemma upt8: "[0..<8] = [0,1,2,3,4,5,6,7]"
  by (simp add: upt_rec)

lemma firstInactive_Some:
  "firstInactive blobs = Some i \<longleftrightarrow>
     i < LAVA_MAX_BLOBS \<and> \<not> active (blobs ! i) \<and> (\<forall>j<i. active (blobs ! j))"
  unfolding firstInactive_def find_Some_iff by auto


lemma random_range_bounds:
  "lo < hi \<Longrightarrow> lo \<le> random_range lo hi r \<and> random_range lo hi r < hi"
proof -
  assume lt: "lo < hi"
  have "0 \<le> int r mod (hi - lo)" "int r mod (hi - lo) < hi - lo"
    using lt by simp_all
  moreover have "random_range lo hi r = int r mod (hi - lo) + lo"
    using lt by (simp add: random_range_def)
  ultimately show ?thesis by linarith
qed

text \<open>
  Claim C5. When no slot of the pool is active, \<open>lavaSpawnBlob\<close> with intensity 1 leaves
  exactly slot 0 active, and whatever the random generator returns the new blob has size
  \<open>LAVA_SPAWN_SIZE * 1.2 = 12\<close>, brightness 1 and an integer position in \<open>[10, 110)\<close>.
\<close>

theorem spawn_on_empty_pool:
  assumes "length (lavaBlobs ls) = LAVA_MAX_BLOBS"
    and "\<forall>i<LAVA_MAX_BLOBS. \<not> active (lavaBlobs ls ! i)"
  shows "filter (\<lambda>i. active (lavaBlobs (lavaSpawnBlob 1 inp ls) ! i)) [0..<LAVA_MAX_BLOBS] = [0] \<and>
         size_blob (lavaBlobs (lavaSpawnBlob 1 inp ls) ! 0) = LAVA_SPAWN_SIZE * 1.2 \<and>
         size_blob (lavaBlobs (lavaSpawnBlob 1 inp ls) ! 0) = 12.0 \<and>
         brightness (lavaBlobs (lavaSpawnBlob 1 inp ls) ! 0) = 1.0 \<and>
         10 \<le> position (lavaBlobs (lavaSpawnBlob 1 inp ls) ! 0) \<and>
         position (lavaBlobs (lavaSpawnBlob 1 inp ls) ! 0) < real NUM_LEDS - 10 \<and>
         position (lavaBlobs (lavaSpawnBlob 1 inp ls) ! 0) \<in> \<int>"
proof -
  have "firstInactive (lavaBlobs ls) = Some 0"
    using assms(2) by (simp add: firstInactive_Some)
  then have slot: "spawnSlot (lavaBlobs ls) = Some 0"
    by (simp add: spawnSlot_def)
  have blobs: "lavaBlobs (lavaSpawnBlob 1 inp ls)
                = (lavaBlobs ls)[0 := spawnedBlob 1 inp (lavaDominantBand ls)]"
    by (simp add: lavaSpawnBlob_def slot)
  have rest: "\<And>i. 0 < i \<Longrightarrow> i < 8 \<Longrightarrow> \<not> active (lavaBlobs (lavaSpawnBlob 1 inp ls) ! i)"
    using assms by (simp add: blobs)
  have first: "lavaBlobs (lavaSpawnBlob 1 inp ls) ! 0 = spawnedBlob 1 inp (lavaDominantBand ls)"
    using assms(1) by (simp add: blobs)
  have act: "filter (\<lambda>i. active (lavaBlobs (lavaSpawnBlob 1 inp ls) ! i)) [0..<LAVA_MAX_BLOBS] = [0]"
    unfolding upt8 using rest by (simp add: first spawnedBlob_def)
  have pos: "10 \<le> random_range 10 (int NUM_LEDS - 10) (randPosition inp)"
            "random_range 10 (int NUM_LEDS - 10) (randPosition inp) < 110"
    using random_range_bounds[of 10 110 "randPosition inp"] by simp_all
  show ?thesis
    using act pos unfolding first by (simp add: spawnedBlob_def)
qed


lemma emptyPool_blobs:
  "length (lavaBlobs emptyPool) = LAVA_MAX_BLOBS"
  "i < LAVA_MAX_BLOBS \<Longrightarrow> \<not> active (lavaBlobs emptyPool ! i)"
  by (simp_all add: emptyPool_def setup_combo_def Let_def trailSetup_def initial_def lavaSetup_def
        del: upt_Suc)

theorem spawn_on_empty_pool_witness:
  "length (lavaBlobs emptyPool) = LAVA_MAX_BLOBS \<and>
   filter (\<lambda>i. active (lavaBlobs (lavaSpawnBlob 1 draws emptyPool) ! i)) [0..<LAVA_MAX_BLOBS] = [0] \<and>
   size_blob (lavaBlobs (lavaSpawnBlob 1 draws emptyPool) ! 0) = 12 \<and>
   brightness (lavaBlobs (lavaSpawnBlob 1 draws emptyPool) ! 0) = 1 \<and>
   position (lavaBlobs (lavaSpawnBlob 1 draws emptyPool) ! 0) = 55"
proof -
  have p: "position (spawnedBlob 1 draws (lavaDominantBand emptyPool)) = 55"
    by (simp add: spawnedBlob_def draws_def random_range_def)
  have "firstInactive (lavaBlobs emptyPool) = Some 0"
    by (simp add: firstInactive_Some emptyPool_blobs)
  then have "spawnSlot (lavaBlobs emptyPool) = Some 0"
    by (simp add: spawnSlot_def)
  then have "lavaBlobs (lavaSpawnBlob 1 draws emptyPool) ! 0
               = spawnedBlob 1 draws (lavaDominantBand emptyPool)"
    by (simp add: lavaSpawnBlob_def emptyPool_blobs)
  then show ?thesis
    using spawn_on_empty_pool[of emptyPool draws] p by (simp add: emptyPool_blobs)
qed













section \<open>Colours and the frame buffer\<close>

lemma mask_numerals: "(0xFFFFFF :: 32 word) = mask 24" "(0xFF :: 32 word) = mask 8"
  by (simp_all add: mask_eq_exp_minus_1)

lemma Color_chan:
  "c AND 0xFFFFFF = c \<Longrightarrow> Color (ucast (chanR c)) (ucast (chanG c)) (ucast (chanB c)) = c"
  unfolding chanR_def chanG_def chanB_def Color_def mask_numerals
  apply (rule bit_word_eqI)
  apply (drule_tac f="\<lambda>w. bit w n" in arg_cong)
  apply (case_tac "n < 8"; case_tac "n < 16"; simp add: bit_simps)
   apply auto
  done

lemma floor_unsigned: "\<lfloor>real (unat (w :: 32 word))\<rfloor> = uint w"
  by (metis floor_of_int of_int_uint of_nat_unat)

lemma unsigned_nonneg: "0 \<le> real (unat (w :: 32 word))"
  by (rule of_nat_0_le_iff)

lemma float_to_uint8_unat: "float_to_uint8 (real (unat (w :: 32 word)) * 1) = ucast w"
  unfolding float_to_uint8_def float_to_int_def mult_1_right 
  using floor_unsigned[of w] unsigned_nonneg[of w] by (simp del: of_nat_unat)


section \<open>The Trail scroll step\<close>

lemma trailPixel_set:
  "length fb = NUM_LEDS \<Longrightarrow> i < NUM_LEDS \<Longrightarrow> j < NUM_LEDS \<Longrightarrow>
   trailPixel (setPixelColor (trailLed (int i)) c fb) j
     = (if j = i then c AND 0xFFFFFF else trailPixel fb j)"
  by (auto simp add: trailPixel_def setPixelColor_def getPixelColor_def trailLed_def nth_list_update)

lemma length_setPixelColor [simp]: "length (setPixelColor n c fb) = length fb"
  by (simp add: setPixelColor_def)

lemma trailScrollLed_pixel:
  "length fb = NUM_LEDS \<Longrightarrow> 8 \<le> i \<Longrightarrow> i < NUM_LEDS \<Longrightarrow> j < NUM_LEDS \<Longrightarrow>
   trailPixel (trailScrollLed fade i fb) j
     = (if j = i then scrolledColor fade i (trailPixel fb (i - 8)) else trailPixel fb j)"
  by (simp add: trailScrollLed_def trailPixel_set scrolledColor_def)
     (simp add: trailPixel_def of_nat_diff)

lemma length_trailScrollLed [simp]: "length (trailScrollLed fade i fb) = length fb"
  by (simp add: trailScrollLed_def)

lemma scroll_from:
  assumes len: "length fb = NUM_LEDS" and k: "8 \<le> k" "k \<le> NUM_LEDS"
  shows "length (foldr (trailScrollLed fade) [k..<NUM_LEDS] fb) = NUM_LEDS \<and>
         (\<forall>j<NUM_LEDS. trailPixel (foldr (trailScrollLed fade) [k..<NUM_LEDS] fb) j
            = (if k \<le> j then scrolledColor fade j (trailPixel fb (j - 8)) else trailPixel fb j))"
  using k(2,1)
proof (induction k rule: inc_induct)
  case base
  show ?case using len by simp
next
  case (step n)
  have n8: "8 \<le> n" using step.prems by simp
  have up: "[n..<NUM_LEDS] = n # [Suc n..<NUM_LEDS]"
    using step.hyps by (simp add: upt_conv_Cons)
  have ih: "length (foldr (trailScrollLed fade) [Suc n..<NUM_LEDS] fb) = NUM_LEDS"
       "\<And>j. j < NUM_LEDS \<Longrightarrow> trailPixel (foldr (trailScrollLed fade) [Suc n..<NUM_LEDS] fb) j
            = (if Suc n \<le> j then scrolledColor fade j (trailPixel fb (j - 8)) else trailPixel fb j)"
    using step.IH n8 by simp_all
  show ?case
  proof (intro conjI allI impI)
    show "length (foldr (trailScrollLed fade) [n..<NUM_LEDS] fb) = NUM_LEDS"
      using ih(1) by (simp add: up)
  next
    fix j assume j: "j < NUM_LEDS"
    have "n - 8 < NUM_LEDS" using step.hyps by simp
    moreover have "\<not> Suc n \<le> n - 8" by arith
    ultimately have src: "trailPixel (foldr (trailScrollLed fade) [Suc n..<NUM_LEDS] fb) (n - 8) = trailPixel fb (n - 8)"
      using ih(2)[of "n - 8"] by simp
    show "trailPixel (foldr (trailScrollLed fade) [n..<NUM_LEDS] fb) j
            = (if n \<le> j then scrolledColor fade j (trailPixel fb (j - 8)) else trailPixel fb j)"
      using ih(1) ih(2)[OF j] src step.hyps n8 j
      by (simp add: up trailScrollLed_pixel)
  qed
qed

lemma trailScroll_pixel:
  assumes "length fb = NUM_LEDS" and "j < NUM_LEDS"
  shows "trailPixel (trailScroll fade fb) j
            = (if 8 \<le> j then scrolledColor fade j (trailPixel fb (j - 8)) else trailPixel fb j)"
    and "length (trailScroll fade fb) = NUM_LEDS"
  using scroll_from[OF assms(1), of 8 fade] assms(2)
  by (simp_all add: trailScroll_def foldr_conv_fold)



lemma trailFadeColor_one: "c AND 0xFFFFFF = c \<Longrightarrow> trailFadeColor c 1 = c"
  unfolding trailFadeColor_def float_to_uint8_unat by (rule Color_chan)

lemma scrolledColor_nofade:
  "c AND 0xFFFFFF = c \<Longrightarrow> scrolledColor 1 i c = c"
  by (simp add: scrolledColor_def trailFadeColor_one)

lemma scrolledColor_24: "scrolledColor fade i c AND 0xFFFFFF = scrolledColor fade i c"
  by (simp add: scrolledColor_def)

lemma trailPixel_nth: "j < NUM_LEDS \<Longrightarrow> trailPixel fb j = fb ! (NUM_LEDS - 1 - j)"
  by (simp add: trailPixel_def getPixelColor_def trailLed_def nat_diff_distrib')

lemma rgbFrame_trailPixel:
  "rgbFrame fb \<longleftrightarrow>
     length fb = NUM_LEDS \<and> (\<forall>j<NUM_LEDS. trailPixel fb j AND 0xFFFFFF = trailPixel fb j)"
proof -
  have "(\<forall>i<NUM_LEDS. fb ! i AND 0xFFFFFF = fb ! i)
        \<longleftrightarrow> (\<forall>j<NUM_LEDS. fb ! (NUM_LEDS - 1 - j) AND 0xFFFFFF = fb ! (NUM_LEDS - 1 - j))"
  proof (intro iffI allI impI)
    fix j :: nat assume "\<forall>i<NUM_LEDS. fb ! i AND 0xFFFFFF = fb ! i" "j < NUM_LEDS"
    then show "fb ! (NUM_LEDS - 1 - j) AND 0xFFFFFF = fb ! (NUM_LEDS - 1 - j)" by simp
  next
    fix i :: nat
    assume a: "\<forall>j<NUM_LEDS. fb ! (NUM_LEDS - 1 - j) AND 0xFFFFFF = fb ! (NUM_LEDS - 1 - j)"
      and i: "i < NUM_LEDS"
    have "NUM_LEDS - 1 - (NUM_LEDS - 1 - i) = i" using i by simp
    moreover have "NUM_LEDS - 1 - i < NUM_LEDS" by simp
    ultimately show "fb ! i AND 0xFFFFFF = fb ! i" using a by metis
  qed
  then show ?thesis by (simp add: rgbFrame_def trailPixel_nth)
qed

lemma trailScroll_nofade:
  assumes "rgbFrame fb"
  shows "rgbFrame (trailScroll 1 fb)"
    and "j < NUM_LEDS \<Longrightarrow> trailPixel (trailScroll 1 fb) j = trailPixel fb (if 8 \<le> j then j - 8 else j)"
proof -
  have len: "length fb = NUM_LEDS" and px: "\<And>j. j < NUM_LEDS \<Longrightarrow> trailPixel fb j AND 0xFFFFFF = trailPixel fb j"
    using assms by (simp_all add: rgbFrame_trailPixel)
  show eq: "trailPixel (trailScroll 1 fb) j = trailPixel fb (if 8 \<le> j then j - 8 else j)"
    if "j < NUM_LEDS" for j
    using that px[of "j - 8"] by (simp add: trailScroll_pixel[OF len] scrolledColor_nofade)
  show "rgbFrame (trailScroll 1 fb)"
    unfolding rgbFrame_trailPixel
  proof (intro conjI allI impI)
    show "length (trailScroll 1 fb) = NUM_LEDS" using len by (simp add: trailScroll_pixel(2)[of fb 0])
  next
    fix j :: nat assume j: "j < NUM_LEDS"
    show "trailPixel (trailScroll 1 fb) j AND 0xFFFFFF = trailPixel (trailScroll 1 fb) j"
      using eq[OF j] px[of j] px[of "j - 8"] j by simp
  qed
qed

lemma scroll_iterated:
  assumes "rgbFrame fb"
  shows "rgbFrame ((trailScroll 1 ^^ k) fb) \<and>
         (\<forall>j<NUM_LEDS. trailPixel ((trailScroll 1 ^^ k) fb) j = trailPixel fb (j - 8 * min k (j div 8)))"
proof (induction k)
  case 0
  show ?case using assms by simp
next
  case (Suc k)
  let ?F = "(trailScroll 1 ^^ k) fb"
  have F: "rgbFrame ?F" and ih: "\<And>j. j < NUM_LEDS \<Longrightarrow> trailPixel ?F j = trailPixel fb (j - 8 * min k (j div 8))"
    using Suc.IH by simp_all
  show ?case
  proof (intro conjI allI impI)
    show "rgbFrame ((trailScroll 1 ^^ Suc k) fb)"
      using trailScroll_nofade(1)[OF F] by simp
  next
    fix j :: nat assume j: "j < NUM_LEDS"
    show "trailPixel ((trailScroll 1 ^^ Suc k) fb) j = trailPixel fb (j - 8 * min (Suc k) (j div 8))"
    proof (cases "8 \<le> j")
      case True
      have d: "j div 8 = Suc ((j - 8) div 8)" using True by (simp add: le_div_geq)
      have "trailPixel ((trailScroll 1 ^^ Suc k) fb) j = trailPixel ?F (j - 8)"
        using trailScroll_nofade(2)[OF F j] True by simp
      also have "\<dots> = trailPixel fb (j - 8 - 8 * min k ((j - 8) div 8))"
        using ih[of "j - 8"] j by simp
      also have "j - 8 - 8 * min k ((j - 8) div 8) = j - 8 * min (Suc k) (j div 8)"
        unfolding d by simp
      finally show ?thesis .
    next
      case False
      then have "j div 8 = 0" by simp
      then show ?thesis
        using trailScroll_nofade(2)[OF F j] False ih[OF j] by simp
    qed
  qed
qed

lemma rgbFrame_scrollFrame: "rgbFrame scrollFrame"
  by (auto simp add: rgbFrame_def scrollFrame_def setPixelColor_def strip_clear_def trailLed_def
        nth_list_update)

lemma scrollFrame_pixel: "trailPixel scrollFrame j = (if j = 0 then 0xFF0000 else 0)"
  by (auto simp add: trailPixel_def scrollFrame_def setPixelColor_def getPixelColor_def
        strip_clear_def trailLed_def nth_list_update)

text \<open>
  Claim C7, as amended. With the fade factor 1 the scroll step loses nothing: after \<open>k\<close>
  steps position \<open>j\<close> holds what stood \<open>8 * min k (j div 8)\<close> positions nearer the head.
  So for \<open>k\<close> from 1 to 14 the real-time pattern (positions 0 to 7) stands unchanged in
  block \<open>k\<close>, and after 15 steps, as after 14, every block of the strip repeats it.
\<close>

theorem trail_scroll_without_fade:
  assumes "rgbFrame fb"
  shows "(\<forall>k j. j < NUM_LEDS \<longrightarrow>
            trailPixel ((trailScroll 1 ^^ k) fb) j = trailPixel fb (j - 8 * min k (j div 8))) \<and>
         (\<forall>k j. 1 \<le> k \<and> k \<le> 14 \<and> j < TRAIL_REALTIME_LEDS \<longrightarrow>
            trailPixel ((trailScroll 1 ^^ k) fb) (k * TRAIL_REALTIME_LEDS + j) = trailPixel fb j) \<and>
         (\<forall>j<NUM_LEDS. trailPixel ((trailScroll 1 ^^ 15) fb) j = trailPixel fb (j mod TRAIL_REALTIME_LEDS)) \<and>
         (\<forall>j<NUM_LEDS. trailPixel ((trailScroll 1 ^^ 14) fb) j = trailPixel fb (j mod TRAIL_REALTIME_LEDS))"
proof -
  note it = scroll_iterated[OF assms]
  have gen: "trailPixel ((trailScroll 1 ^^ k) fb) j = trailPixel fb (j - 8 * min k (j div 8))"
    if "j < NUM_LEDS" for k j using it[of k] that by simp
  have blk: "trailPixel ((trailScroll 1 ^^ k) fb) (k * 8 + j) = trailPixel fb j"
    if "1 \<le> k" "k \<le> 14" "j < 8" for k j
  proof -
    have "k * 8 + j < NUM_LEDS" using that by simp
    moreover have "(k * 8 + j) div 8 = k" using that by simp
    ultimately show ?thesis using gen[of "k * 8 + j" k] by simp
  qed
  have full: "trailPixel ((trailScroll 1 ^^ k) fb) j = trailPixel fb (j mod 8)"
    if "j < NUM_LEDS" "14 \<le> k" for k j
  proof -
    have "j div 8 \<le> 14" using that(1) by simp
    then have "min k (j div 8) = j div 8" using that(2) by simp
    moreover have "j - 8 * (j div 8) = j mod 8" by (simp add: minus_mult_div_eq_mod)
    ultimately show ?thesis using gen[OF that(1), of k] by simp
  qed
  show ?thesis
  proof (intro conjI allI impI)
    fix k j :: nat assume "j < NUM_LEDS"
    then show "trailPixel ((trailScroll 1 ^^ k) fb) j = trailPixel fb (j - 8 * min k (j div 8))"
      by (rule gen)
  next
    fix k j :: nat assume "1 \<le> k \<and> k \<le> 14 \<and> j < TRAIL_REALTIME_LEDS"
    then show "trailPixel ((trailScroll 1 ^^ k) fb) (k * TRAIL_REALTIME_LEDS + j) = trailPixel fb j"
      using blk[of k j] by blast
  next
    fix j :: nat assume "j < NUM_LEDS"
    then show "trailPixel ((trailScroll 1 ^^ 15) fb) j = trailPixel fb (j mod TRAIL_REALTIME_LEDS)"
      using full[of j 15] by simp
  next
    fix j :: nat assume "j < NUM_LEDS"
    then show "trailPixel ((trailScroll 1 ^^ 14) fb) j = trailPixel fb (j mod TRAIL_REALTIME_LEDS)"
      using full[of j 14] by simp
  qed
qed

theorem trail_scroll_without_fade_witness:
  "rgbFrame scrollFrame \<and> trailPixel scrollFrame 0 = 0xFF0000 \<and>
   trailPixel ((trailScroll 1 ^^ 3) scrollFrame) 24 = 0xFF0000 \<and>
   trailPixel ((trailScroll 1 ^^ 15) scrollFrame) 112 = 0xFF0000"
  using trail_scroll_without_fade[OF rgbFrame_scrollFrame]
  by (simp add: rgbFrame_scrollFrame scrollFrame_pixel)

text \<open>
  The claim as stated fails: the head pixel of \<open>scrollFrame\<close> is red, and after 15 steps
  neither the position 15 blocks further (which is off the strip and reads as 0) nor the
  position 15 LEDs further holds that colour.
\<close>

theorem trail_scroll_fifteen_counterexample:
  "trailPixel scrollFrame 0 = 0xFF0000 \<and>
   trailPixel ((trailScroll 1 ^^ 15) scrollFrame) (0 + 15 * TRAIL_REALTIME_LEDS)
     \<noteq> trailPixel scrollFrame 0 \<and>
   trailPixel ((trailScroll 1 ^^ 15) scrollFrame) (0 + 15) \<noteq> trailPixel scrollFrame 0"
proof -
  have "trailPixel ((trailScroll 1 ^^ 15) scrollFrame) 15 = trailPixel scrollFrame (15 - 8 * min 15 (15 div 8))"
    using scroll_iterated[OF rgbFrame_scrollFrame, of 15] by simp
  then have a: "trailPixel ((trailScroll 1 ^^ 15) scrollFrame) 15 = 0"
    by (simp add: scrollFrame_pixel)
  have b: "trailPixel ((trailScroll 1 ^^ 15) scrollFrame) 120 = 0"
    by (simp add: trailPixel_def getPixelColor_def trailLed_def)
  show ?thesis using a b by (simp add: scrollFrame_pixel)
qed

section \<open>Mode change\<close>






section \<open>Intensities and colour channels\<close>

lemma chan_Color:
  "chanR (Color r g b) = ucast r" "chanG (Color r g b) = ucast g" "chanB (Color r g b) = ucast b"
  unfolding chanR_def chanG_def chanB_def Color_def mask_numerals
  by (rule bit_word_eqI; auto simp add: bit_simps dest: bit_imp_le_length)+

lemma Color_24: "Color r g b AND 0xFFFFFF = Color r g b"
  unfolding Color_def mask_numerals
  by (rule bit_word_eqI; auto simp add: bit_simps dest: bit_imp_le_length)

lemma get_set_pixel:
  "0 \<le> n \<Longrightarrow> n < int NUM_LEDS \<Longrightarrow> length fb = NUM_LEDS \<Longrightarrow>
   getPixelColor n (setPixelColor n c fb) = c AND 0xFFFFFF"
  by (simp add: getPixelColor_def setPixelColor_def)

lemma uint_addChannel:
  "uint (addChannel old new) = min 255 (uint (ucast old :: uint8) + uint new)"
proof -
  have "0 \<le> min 255 (uint (ucast old :: uint8) + uint new)"
       "min 255 (uint (ucast old :: uint8) + uint new) < 256"
    by simp_all
  then show ?thesis
    unfolding addChannel_def by (simp add: uint_word_of_int)
qed

text \<open>
  Claim C9. Whenever an engine computes a pixel intensity it lies in the unit interval:
  the Trail intensity in \<open>[0.2, 1]\<close>, the Lava falloff times brightness and the Spectrum
  intensity in \<open>[0, 1]\<close>. The channel sum of the Lava compositing is
  \<open>min 255 (old + new)\<close> on the integers, so it never wraps and never exceeds 255, and
  these sums are the three channels of the pixel that \<open>lavaAddColorToPixel\<close> stores.
\<close>

theorem intensities_clamped_and_channels_saturate:
  "(\<forall>x. trailIntensity band noise peak = Some x \<longrightarrow> 0.2 \<le> x \<and> x \<le> 1) \<and>
   (\<forall>x. lavaFalloff blob i = Some x \<longrightarrow> 0 \<le> x \<and> x \<le> 1) \<and>
   (\<forall>x. spectrumIntensity val pk noiseFloor = Some x \<longrightarrow> 0 \<le> x \<and> x \<le> 1) \<and>
   uint (addChannel old new) = min 255 (uint (ucast old :: uint8) + uint new) \<and>
   uint (addChannel old new) \<le> 255 \<and>
   (0 \<le> pixel \<and> pixel < int NUM_LEDS \<and> length fb = NUM_LEDS \<longrightarrow>
      chanR (getPixelColor pixel (lavaAddColorToPixel pixel c bright fb))
        = ucast (addChannel (chanR (getPixelColor pixel fb))
                            (float_to_uint8 (real (unat (chanR c)) * bright))) \<and>
      chanG (getPixelColor pixel (lavaAddColorToPixel pixel c bright fb))
        = ucast (addChannel (chanG (getPixelColor pixel fb))
                            (float_to_uint8 (real (unat (chanG c)) * bright))) \<and>
      chanB (getPixelColor pixel (lavaAddColorToPixel pixel c bright fb))
        = ucast (addChannel (chanB (getPixelColor pixel fb))
                            (float_to_uint8 (real (unat (chanB c)) * bright))))"
proof -
  have t: "\<forall>x. trailIntensity band noise peak = Some x \<longrightarrow> 0.2 \<le> x \<and> x \<le> 1"
    using constrain_bounds[of "0.2" 1 "(band - noise) / (peak - noise + 1)"]
    by (auto simp add: trailIntensity_def fdiv_def split: if_splits)
  have l: "\<forall>x. lavaFalloff blob i = Some x \<longrightarrow> 0 \<le> x \<and> x \<le> 1"
    using constrain_bounds[of 0 1]
    by (auto simp add: lavaFalloff_def Let_def fdiv_def split: if_splits)
  have s: "\<forall>x. spectrumIntensity val pk noiseFloor = Some x \<longrightarrow> 0 \<le> x \<and> x \<le> 1"
    using spectrumIntensity_total[of val pk noiseFloor] by auto
  have u: "uint (addChannel old new) \<le> 255"
    unfolding uint_addChannel by simp
  have p: "chanR (getPixelColor pixel (lavaAddColorToPixel pixel c bright fb))
        = ucast (addChannel (chanR (getPixelColor pixel fb))
                            (float_to_uint8 (real (unat (chanR c)) * bright))) \<and>
      chanG (getPixelColor pixel (lavaAddColorToPixel pixel c bright fb))
        = ucast (addChannel (chanG (getPixelColor pixel fb))
                            (float_to_uint8 (real (unat (chanG c)) * bright))) \<and>
      chanB (getPixelColor pixel (lavaAddColorToPixel pixel c bright fb))
        = ucast (addChannel (chanB (getPixelColor pixel fb))
                            (float_to_uint8 (real (unat (chanB c)) * bright)))"
    if "0 \<le> pixel" "pixel < int NUM_LEDS" "length fb = NUM_LEDS"
    unfolding lavaAddColorToPixel_def Let_def get_set_pixel[OF that] Color_24 chan_Color
    by simp
  show ?thesis using t l s u p uint_addChannel by blast
qed

theorem intensities_clamped_and_channels_saturate_witness:
  "trailIntensity 300 200 250 = Some 1 \<and>
   lavaFalloff brightBlob 55 = Some (49 / 144) \<and>
   spectrumIntensity 70 90 50 = Some (3 / 4) \<and>
   uint (addChannel 200 100) = 255 \<and>
   chanR (getPixelColor 5 redFrame) = 200 \<and>
   chanR (getPixelColor 5 (lavaAddColorToPixel 5 0xFF0000 1 redFrame)) = 255"
proof -
  note th = intensities_clamped_and_channels_saturate
              [where band = 300 and noise = 200 and peak = 250 and blob = brightBlob and i = 55
                 and val = 70 and pk = 90 and noiseFloor = 50 and old = 200 and new = 100
                 and pixel = 5 and fb = redFrame and c = "0xFF0000" and bright = 1]
  have a: "trailIntensity 300 200 250 = Some 1"
    by (simp add: trailIntensity_def constrain_def)
  have b: "lavaFalloff brightBlob 55 = Some (49 / 144)"
    by (simp add: lavaFalloff_def brightBlob_def constrain_def Let_def power2_eq_square)
  have c: "spectrumIntensity 70 90 50 = Some (3 / 4)"
    by (simp add: spectrumIntensity_def constrain_def)
  have d: "uint (addChannel 200 100) = 255"
    using th by simp
  have e: "chanR (getPixelColor 5 redFrame) = 200"
    by (simp add: getPixelColor_def redFrame_def chanR_def)
  have f: "float_to_uint8 (real (unat (chanR 0xFF0000)) * 1) = 255"
    by (simp add: float_to_uint8_def float_to_int_def chanR_def)
  have "chanR (getPixelColor 5 (lavaAddColorToPixel 5 0xFF0000 1 redFrame))
          = ucast (addChannel (chanR (getPixelColor 5 redFrame))
                            (float_to_uint8 (real (unat (chanR 0xFF0000)) * 1)))"
    using th by (simp add: redFrame_def)
  then have g: "chanR (getPixelColor 5 (lavaAddColorToPixel 5 0xFF0000 1 redFrame)) = 255"
    unfolding e f by (simp add: addChannel_def)
  show ?thesis using a b c d e g by simp
qed

end
